theory Spec2Isabelle
  imports Main "HOL-Library.Word"
begin

unbundle bit_operations_syntax

section \<open>The encrypted keystore of lib/utils/key.js\<close>

text \<open>
  The file \<^verbatim>\<open>src/lib/utils/key.js\<close> exports three operations: \<^verbatim>\<open>GenKey\<close>,
  \<^verbatim>\<open>EncryptKey\<close> and \<^verbatim>\<open>DecryptKey\<close> (which calls \<^verbatim>\<open>DecryptKeyV3\<close>). They are
  written against three libraries: Node's \<^verbatim>\<open>crypto\<close> (random bytes, the AES-128-CTR
  cipher object), \<^verbatim>\<open>scrypt\<close> (the key derivation) and \<^verbatim>\<open>ethereumjs-util\<close> (keccak
  hash, key validity, public key and address derivation).

  The library functions are not part of the file. They are taken as parameters
  (the record \<open>prims\<close>); everything the file itself does (the order of the calls, the
  slices of the derived key, the hex conversions, the guards and the thrown values) is
  modelled as written. Buffers are lists of bytes, JavaScript strings are \<open>string\<close>,
  a thrown value is the left summand of the result. What \<^verbatim>\<open>JSON.parse\<close> hands to
  \<^verbatim>\<open>DecryptKey\<close> is a JSON value of any kind in the fields that the code compares with
  \<^verbatim>\<open>==\<close> and \<^verbatim>\<open>!=\<close>, which are JavaScript's loose comparisons.
\<close>

type_synonym byte = "8 word"
type_synonym buffer = "byte list"

subsection \<open>Buffers and the hex encoding\<close>

text \<open>\<^verbatim>\<open>buf.slice(start, end)\<close> for non-negative indices: both ends are clamped to the
  length of the buffer.\<close>

definition slice :: "nat \<Rightarrow> nat \<Rightarrow> buffer \<Rightarrow> buffer" where
  "slice start end' buf = drop start (take end' buf)"

text \<open>\<^verbatim>\<open>buf.toString('hex')\<close>: two lowercase digits for every byte.\<close>

definition hexDigit :: "nat \<Rightarrow> char" where
  "hexDigit d = char_of (if d < 10 then 48 + d else 87 + d)"

definition toString_hex :: "buffer \<Rightarrow> string" where
  "toString_hex buf = concat (map (\<lambda>b. [hexDigit (unat b div 16), hexDigit (unat b mod 16)]) buf)"

text \<open>\<^verbatim>\<open>new Buffer(str, 'hex')\<close> on Node 6: a string of odd length is refused with
  \<^verbatim>\<open>TypeError: Invalid hex string\<close> (the result \<open>None\<close>). Otherwise the pairs of digits, of
  either case, are read from the left; reading stops at the first pair that holds another
  character, and the bytes read so far are the buffer.\<close>

definition hexValue :: "char \<Rightarrow> nat option" where
  "hexValue c =
     (let k = (of_char c :: nat) in
      if 48 \<le> k \<and> k \<le> 57 then Some (k - 48)
      else if 97 \<le> k \<and> k \<le> 102 then Some (k - 87)
      else if 65 \<le> k \<and> k \<le> 70 then Some (k - 55)
      else None)"

fun hex_decode :: "string \<Rightarrow> buffer" where
  "hex_decode (c # d # rest) =
     (case hexValue c of
        None \<Rightarrow> []
      | Some hi \<Rightarrow>
         (case hexValue d of
            None \<Rightarrow> []
          | Some lo \<Rightarrow> of_nat (16 * hi + lo) # hex_decode rest))"
| "hex_decode s = []"

definition Buffer_hex :: "string \<Rightarrow> buffer option" where
  "Buffer_hex str = (if odd (length str) then None else Some (hex_decode str))"

subsection \<open>The library functions, the entropy source and the log of calls\<close>

text \<open>
  \<^item> \<open>scrypt_hashSync passwd N r p dklen salt\<close>: \<^verbatim>\<open>scrypt.hashSync(passwd, {N, r, p}, dklen, salt)\<close>;
    \<open>None\<close> when the library throws (parameters it refuses).
  \<^item> \<open>aes_128_ctr_keystream key iv i\<close>: byte \<open>i\<close> of the AES-128 counter-mode key stream
    for a 16-byte key and a 16-byte initialization vector. A counter-mode cipher
    combines its input with this stream by exclusive or.
  \<^item> \<open>sha3\<close>: \<^verbatim>\<open>ethutil.sha3\<close> (keccak-256).
  \<^item> \<open>isValidPrivate\<close>, \<open>privateToPublic\<close>, \<open>pubToAddress\<close>: the functions of
    \<^verbatim>\<open>ethereumjs-util\<close> of these names.
\<close>

record prims =
  scrypt_hashSync :: "string \<Rightarrow> int \<Rightarrow> int \<Rightarrow> int \<Rightarrow> int \<Rightarrow> buffer \<Rightarrow> buffer option"
  aes_128_ctr_keystream :: "buffer \<Rightarrow> buffer \<Rightarrow> nat \<Rightarrow> byte"
  sha3 :: "buffer \<Rightarrow> buffer"
  isValidPrivate :: "buffer \<Rightarrow> bool"
  privateToPublic :: "buffer \<Rightarrow> buffer"
  pubToAddress :: "buffer \<Rightarrow> buffer"

text \<open>A call of a library function, with its arguments, in the order the calls are made.\<close>

datatype call =
    RandomBytes nat
  | ScryptHashSync string int int int int buffer
  | CreateCipheriv string buffer buffer
  | CipherUpdate buffer
  | Sha3 buffer

text \<open>The world outside the file: the bytes the entropy source will deliver, how many of
  them have been consumed, and the library calls made so far.\<close>

record world =
  entropy :: "nat \<Rightarrow> byte"
  consumed :: nat
  calls :: "call list"

definition logged :: "call \<Rightarrow> world \<Rightarrow> world" where
  "logged c w = w\<lparr>calls := calls w @ [c]\<rparr>"

text \<open>What JavaScript throws: a string (\<^verbatim>\<open>throw "..."\<close>), or an error object of a
  library or of the language.\<close>

datatype exn =
    Throw string
  | TypeError string
  | SyntaxError
  | Error string

definition randomBytes :: "nat \<Rightarrow> world \<Rightarrow> buffer \<times> world" where
  "randomBytes k w =
     (map (entropy w) [consumed w ..< consumed w + k],
      logged (RandomBytes k) (w\<lparr>consumed := consumed w + k\<rparr>))"

definition scrypt_call ::
  "prims \<Rightarrow> string \<Rightarrow> int \<Rightarrow> int \<Rightarrow> int \<Rightarrow> int \<Rightarrow> buffer \<Rightarrow> world \<Rightarrow> buffer option \<times> world" where
  "scrypt_call P passwd N r p dklen salt w =
     (scrypt_hashSync P passwd N r p dklen salt, logged (ScryptHashSync passwd N r p dklen salt) w)"

definition ethutil_sha3 :: "prims \<Rightarrow> buffer \<Rightarrow> world \<Rightarrow> buffer \<times> world" where
  "ethutil_sha3 P buf w = (sha3 P buf, logged (Sha3 buf) w)"

text \<open>The cipher object of \<^verbatim>\<open>crypto.createCipheriv\<close>: its key, its initialization vector
  and the number of key stream bytes already used. \<^verbatim>\<open>createCipheriv\<close> throws on an
  initialization vector that is neither 16 bytes long nor empty (Node 6 lets an empty one
  pass for this cipher; the key stream is then the one the library produces for it), and
  then on a key that is not 16 bytes long.\<close>

record cipher_object =
  cipher_key :: buffer
  cipher_iv :: buffer
  cipher_offset :: nat

definition createCipheriv :: "string \<Rightarrow> buffer \<Rightarrow> buffer \<Rightarrow> world \<Rightarrow> (exn + cipher_object) \<times> world" where
  "createCipheriv algorithm key iv w =
     (let w' = logged (CreateCipheriv algorithm key iv) w in
      if algorithm \<noteq> ''aes-128-ctr'' then (Inl (Error ''Unknown cipher''), w')
      else if length iv \<noteq> 16 \<and> length iv \<noteq> 0 then (Inl (Error ''Invalid IV length''), w')
      else if length key \<noteq> 16 then (Inl (Error ''Invalid key length''), w')
      else (Inr \<lparr>cipher_key = key, cipher_iv = iv, cipher_offset = 0\<rparr>, w'))"

definition xor_keystream :: "prims \<Rightarrow> buffer \<Rightarrow> buffer \<Rightarrow> nat \<Rightarrow> buffer \<Rightarrow> buffer" where
  "xor_keystream P key iv off buf =
     map (\<lambda>(i, b). b XOR aes_128_ctr_keystream P key iv (off + i)) (zip [0 ..< length buf] buf)"

text \<open>\<^verbatim>\<open>cipher.update(data, 'utf8', 'hex')\<close> on a Buffer (the input encoding is ignored for
  a Buffer): the hex text of the processed bytes. \<^verbatim>\<open>cipher.final('hex')\<close> of a stream
  cipher has nothing left to emit.\<close>

definition cipher_update ::
  "prims \<Rightarrow> cipher_object \<Rightarrow> buffer \<Rightarrow> world \<Rightarrow> (string \<times> cipher_object) \<times> world" where
  "cipher_update P c buf w =
     ((toString_hex (xor_keystream P (cipher_key c) (cipher_iv c) (cipher_offset c) buf),
       c\<lparr>cipher_offset := cipher_offset c + length buf\<rparr>),
      logged (CipherUpdate buf) w)"

definition cipher_final :: "cipher_object \<Rightarrow> string" where
  "cipher_final c = toString_hex []"

subsection \<open>The constants of the file\<close>

text \<open>\<^verbatim>\<open>const ScryptN = 1 << 18\<close>: JavaScript shifts in 32 bits and reads the result as
  a signed number.\<close>

definition ScryptN :: int where
  "ScryptN = sint (push_bit 18 (1 :: 32 word))"

definition ScryptP :: int where
  "ScryptP = 1"

definition ScryptR :: int where
  "ScryptR = 8"

definition ScryptDKLen :: int where
  "ScryptDKLen = 32"

subsection \<open>The data\<close>

text \<open>What \<^verbatim>\<open>GenKey\<close> returns.\<close>

record keypair =
  prvkey :: buffer
  pubkey :: buffer
  addr :: buffer

text \<open>The object \<^verbatim>\<open>EncryptKey\<close> returns, each field under the path of its JSON key:
  \<open>kdfparams_n\<close> is \<^verbatim>\<open>crypto.kdfparams.n\<close>, and so on. The fields are typed as
  \<^verbatim>\<open>EncryptKey\<close> fills them: numbers are integers, the others are strings.\<close>

record kdfparams =
  kdfparams_dklen :: int
  kdfparams_n :: int
  kdfparams_p :: int
  kdfparams_r :: int
  kdfparams_salt :: string

record cipherparams =
  cipherparams_iv :: string

record cryptoJSON =
  crypto_cipher :: string
  crypto_ciphertext :: string
  crypto_cipherparams :: cipherparams
  crypto_kdf :: string
  crypto_kdfparams :: kdfparams
  crypto_mac :: string

record keyJson =
  key_address :: string
  key_crypto :: cryptoJSON
  key_version :: int

subsection \<open>JSON values and the loose comparison\<close>

text \<open>What \<^verbatim>\<open>JSON.parse\<close> can return: \<^verbatim>\<open>null\<close>, a boolean, a number, a string, an array or an
  object (its properties in the order of the text). A property that is absent reads as
  \<^verbatim>\<open>undefined\<close>, which is \<open>None\<close> of type \<open>json option\<close>. Numbers are modelled at the
  integers of magnitude below \<open>2 ^ 53\<close>, where a JavaScript number is the integer itself;
  strings are modelled at the characters of one byte.\<close>

datatype json =
    JNull
  | JBool bool
  | JNum int
  | JStr string
  | JArr "json list"
  | JObj "(string \<times> json) list"

text \<open>\<^verbatim>\<open>Number.prototype.toString\<close> on such an integer: its decimal numeral.\<close>

fun decimal :: "nat \<Rightarrow> string" where
  "decimal n = (if n < 10 then [char_of (48 + n)] else decimal (n div 10) @ [char_of (48 + n mod 10)])"

declare decimal.simps [simp del]

definition Number_toString :: "int \<Rightarrow> string" where
  "Number_toString n = (if n < 0 then CHR ''-'' # decimal (nat (- n)) else decimal (nat n))"

text \<open>The conversion of a value to a string (\<^verbatim>\<open>ToString\<close>, which for an array or an object
  goes through \<^verbatim>\<open>ToPrimitive\<close>). An array converts by \<^verbatim>\<open>Array.prototype.join\<close>: the
  strings of its elements separated by commas, \<^verbatim>\<open>null\<close> counting as the empty string. An
  object converts by \<^verbatim>\<open>Object.prototype.toString\<close> to \<^verbatim>\<open>[object Object]\<close>, unless the text
  gave it a property \<^verbatim>\<open>toString\<close> of its own: that property is not a function, and neither
  it nor \<^verbatim>\<open>valueOf\<close> yields a primitive value, so the conversion throws a
  \<^verbatim>\<open>TypeError\<close>.\<close>

fun js_ToString :: "json \<Rightarrow> exn + string"
  and js_join :: "json list \<Rightarrow> exn + string"
  where
  "js_ToString JNull = Inr ''null''"
| "js_ToString (JBool b) = Inr (if b then ''true'' else ''false'')"
| "js_ToString (JNum n) = Inr (Number_toString n)"
| "js_ToString (JStr s) = Inr s"
| "js_ToString (JArr xs) = js_join xs"
| "js_ToString (JObj kvs) =
     (if ''toString'' \<in> set (map fst kvs)
      then Inl (TypeError ''Cannot convert object to primitive value'')
      else Inr ''[object Object]'')"
| "js_join [] = Inr ''''"
| "js_join (x # xs) =
     (case (if x = JNull then Inr '''' else js_ToString x) of
        Inl e \<Rightarrow> Inl e
      | Inr s \<Rightarrow>
         (if xs = [] then Inr s
          else (case js_join xs of
                  Inl e \<Rightarrow> Inl e
                | Inr rest \<Rightarrow> Inr (s @ '','' @ rest))))"

definition js_ToString_opt :: "json option \<Rightarrow> exn + string" where
  "js_ToString_opt v = (case v of None \<Rightarrow> Inr ''undefined'' | Some x \<Rightarrow> js_ToString x)"

text \<open>The conversion of a string to a number (\<^verbatim>\<open>ToNumber\<close>), for the results that are
  integers: white space around the literal is dropped; the empty string is 0; a decimal
  literal is a sequence of digits with an optional sign and an optional exponent (\<^verbatim>\<open>e\<close>
  and digits); a literal that starts with \<^verbatim>\<open>0x\<close>, \<^verbatim>\<open>0o\<close> or \<^verbatim>\<open>0b\<close> is read in base 16, 8
  or 2. Every other string gives \<open>None\<close>: it converts to \<^verbatim>\<open>NaN\<close>, or it has a fraction
  point, a negative exponent or is \<^verbatim>\<open>Infinity\<close>; such literals do not occur in the strings
  the file compares with (three literals without a point and hex texts).\<close>

definition js_whitespace :: "char \<Rightarrow> bool" where
  "js_whitespace c = ((of_char c :: nat) \<in> {9, 10, 11, 12, 13, 32, 160})"

definition js_trim :: "string \<Rightarrow> string" where
  "js_trim s = rev (dropWhile js_whitespace (rev (dropWhile js_whitespace s)))"

fun radix_value :: "nat \<Rightarrow> nat \<Rightarrow> string \<Rightarrow> nat option" where
  "radix_value b acc [] = Some acc"
| "radix_value b acc (c # cs) =
     (case hexValue c of
        None \<Rightarrow> None
      | Some v \<Rightarrow> if v < b then radix_value b (b * acc + v) cs else None)"

definition digits_value :: "nat \<Rightarrow> string \<Rightarrow> nat option" where
  "digits_value b s = (if s = [] then None else radix_value b 0 s)"

definition is_digit :: "char \<Rightarrow> bool" where
  "is_digit c = (48 \<le> (of_char c :: nat) \<and> (of_char c :: nat) \<le> 57)"

definition unsigned_decimal :: "string \<Rightarrow> nat option" where
  "unsigned_decimal s =
     (let mantissa = takeWhile is_digit s; rest = dropWhile is_digit s in
      case rest of
        [] \<Rightarrow> digits_value 10 mantissa
      | e # ex \<Rightarrow>
          if e = CHR ''e'' \<or> e = CHR ''E'' then
            (case (digits_value 10 mantissa,
                   digits_value 10 (case ex of [] \<Rightarrow> [] | c # cs \<Rightarrow> if c = CHR ''+'' then cs else ex)) of
               (Some m, Some k) \<Rightarrow> Some (m * 10 ^ k)
             | _ \<Rightarrow> None)
          else None)"

definition js_ToNumber :: "string \<Rightarrow> int option" where
  "js_ToNumber str =
     (case js_trim str of
        [] \<Rightarrow> Some 0
      | c # cs \<Rightarrow>
          if c = CHR ''+'' then map_option int (unsigned_decimal cs)
          else if c = CHR ''-'' then map_option (\<lambda>n. - int n) (unsigned_decimal cs)
          else if c = CHR ''0'' \<and> cs \<noteq> [] \<and> hd cs \<in> set ''xX'' then map_option int (digits_value 16 (tl cs))
          else if c = CHR ''0'' \<and> cs \<noteq> [] \<and> hd cs \<in> set ''oO'' then map_option int (digits_value 8 (tl cs))
          else if c = CHR ''0'' \<and> cs \<noteq> [] \<and> hd cs \<in> set ''bB'' then map_option int (digits_value 2 (tl cs))
          else map_option int (unsigned_decimal (c # cs)))"

text \<open>Truthiness (\<^verbatim>\<open>ToBoolean\<close>), as \<^verbatim>\<open>&&\<close> and \<^verbatim>\<open>if\<close> test it: \<^verbatim>\<open>undefined\<close>, \<^verbatim>\<open>null\<close>,
  \<^verbatim>\<open>false\<close>, 0 and the empty string are falsy, every array and object is truthy.\<close>

definition js_truthy :: "json option \<Rightarrow> bool" where
  "js_truthy v =
     (case v of
        None \<Rightarrow> False
      | Some JNull \<Rightarrow> False
      | Some (JBool b) \<Rightarrow> b
      | Some (JNum n) \<Rightarrow> n \<noteq> 0
      | Some (JStr s) \<Rightarrow> s \<noteq> []
      | Some (JArr xs) \<Rightarrow> True
      | Some (JObj kvs) \<Rightarrow> True)"

text \<open>The loose comparison \<^verbatim>\<open>v == str\<close> of a value with a string (\<^verbatim>\<open>v != str\<close> is its
  negation): \<^verbatim>\<open>undefined\<close> and \<^verbatim>\<open>null\<close> equal no string; a boolean is converted to 1
  or 0 and a number is compared with the number the string converts to; two strings are
  compared as strings; an array or an object is converted to a string first, which may
  throw.\<close>

definition js_loose_eq_string :: "json option \<Rightarrow> string \<Rightarrow> exn + bool" where
  "js_loose_eq_string v str =
     (case v of
        None \<Rightarrow> Inr False
      | Some JNull \<Rightarrow> Inr False
      | Some (JBool b) \<Rightarrow> Inr (js_ToNumber str = Some (if b then 1 else 0))
      | Some (JNum n) \<Rightarrow> Inr (js_ToNumber str = Some n)
      | Some (JStr s) \<Rightarrow> Inr (s = str)
      | Some (JArr xs) \<Rightarrow> (case js_ToString (JArr xs) of Inl e \<Rightarrow> Inl e | Inr s \<Rightarrow> Inr (s = str))
      | Some (JObj kvs) \<Rightarrow> (case js_ToString (JObj kvs) of Inl e \<Rightarrow> Inl e | Inr s \<Rightarrow> Inr (s = str)))"

subsection \<open>What DecryptKey receives\<close>

text \<open>\<^verbatim>\<open>JSON.parse\<close> returns whatever its text denotes, so the fields \<^verbatim>\<open>DecryptKey\<close> and
  \<^verbatim>\<open>DecryptKeyV3\<close> compare (\<^verbatim>\<open>version\<close>, \<^verbatim>\<open>crypto.cipher\<close>, \<^verbatim>\<open>crypto.kdf\<close>,
  \<^verbatim>\<open>crypto.mac\<close>) are JSON values of any kind, or absent. The fields they hand to
  \<^verbatim>\<open>new Buffer\<close> and to \<^verbatim>\<open>scrypt.hashSync\<close> are taken at the types \<^verbatim>\<open>EncryptKey\<close> writes
  them with (strings and integers), and the objects \<^verbatim>\<open>crypto\<close>, \<^verbatim>\<open>kdfparams\<close> and
  \<^verbatim>\<open>cipherparams\<close> are taken to be present.\<close>

record parsedCrypto =
  parsed_cipher :: "json option"
  parsed_ciphertext :: string
  parsed_cipherparams :: cipherparams
  parsed_kdf :: "json option"
  parsed_kdfparams :: kdfparams
  parsed_mac :: "json option"

record parsedKey =
  parsed_address :: "json option"
  parsed_crypto :: parsedCrypto
  parsed_version :: "json option"

text \<open>The value that the JSON text of a record of \<^verbatim>\<open>EncryptKey\<close> denotes.\<close>

definition as_parsed_crypto :: "cryptoJSON \<Rightarrow> parsedCrypto" where
  "as_parsed_crypto cj =
     \<lparr>parsed_cipher = Some (JStr (crypto_cipher cj)),
      parsed_ciphertext = crypto_ciphertext cj,
      parsed_cipherparams = crypto_cipherparams cj,
      parsed_kdf = Some (JStr (crypto_kdf cj)),
      parsed_kdfparams = crypto_kdfparams cj,
      parsed_mac = Some (JStr (crypto_mac cj))\<rparr>"

definition as_parsed :: "keyJson \<Rightarrow> parsedKey" where
  "as_parsed r =
     \<lparr>parsed_address = Some (JStr (key_address r)),
      parsed_crypto = as_parsed_crypto (key_crypto r),
      parsed_version = Some (JNum (key_version r))\<rparr>"

text \<open>The first argument of \<^verbatim>\<open>DecryptKey\<close> is handed to \<^verbatim>\<open>JSON.parse\<close>, which converts
  its argument to a string first. It is either JSON text, given here by the value it
  denotes, or an object, which converts to the string \<^verbatim>\<open>[object Object]\<close>. \<open>JsonText r\<close>
  is the JSON text of the record \<open>r\<close>, which is what \<^verbatim>\<open>JSON.stringify\<close> makes of it.\<close>

datatype keyJsonArg =
    Text parsedKey
  | JsObject keyJson

abbreviation JsonText :: "keyJson \<Rightarrow> keyJsonArg" where
  "JsonText r \<equiv> Text (as_parsed r)"

definition JSON_stringify :: "keyJson \<Rightarrow> keyJsonArg" where
  "JSON_stringify r = JsonText r"

definition JSON_parse :: "keyJsonArg \<Rightarrow> exn + parsedKey" where
  "JSON_parse a = (case a of Text p \<Rightarrow> Inr p | JsObject r \<Rightarrow> Inl SyntaxError)"

subsection \<open>GenKey\<close>

text \<open>The \<^verbatim>\<open>do ... while (!ethutil.isValidPrivate(privatekey))\<close> loop. It has no bound,
  so it is a partial function: \<open>None\<close> is the run that never leaves the loop.\<close>

partial_function (option) GenKey_loop :: "prims \<Rightarrow> world \<Rightarrow> (buffer \<times> world) option" where
  "GenKey_loop P w =
     (case randomBytes 32 w of
        (privatekey, w') \<Rightarrow>
          if \<not> isValidPrivate P privatekey then GenKey_loop P w'
          else Some (privatekey, w'))"

declare GenKey_loop.simps [code]

definition GenKey :: "prims \<Rightarrow> world \<Rightarrow> (keypair \<times> world) option" where
  "GenKey P w =
     (case GenKey_loop P w of
        None \<Rightarrow> None
      | Some (privatekey, w') \<Rightarrow>
          (let publicKey = privateToPublic P privatekey;
               address = pubToAddress P publicKey
           in Some (\<lparr>prvkey = privatekey, pubkey = publicKey, addr = address\<rparr>, w')))"

subsection \<open>EncryptKey\<close>

text \<open>The statements of \<^verbatim>\<open>EncryptKey\<close> in their order, each library call threading the
  world. An exception of a library ends the function with that exception; a throwing
  \<^verbatim>\<open>scrypt.hashSync\<close> is recorded as \<open>Error ''scrypt''\<close>, its message not being modelled.\<close>

definition EncryptKey :: "prims \<Rightarrow> keypair \<Rightarrow> string \<Rightarrow> world \<Rightarrow> (exn + keyJson) \<times> world" where
  "EncryptKey P key passwd w =
     (case randomBytes 32 w of (salt, w1) \<Rightarrow>
     (case scrypt_call P passwd ScryptN ScryptR ScryptP ScryptDKLen salt w1 of
        (None, w2) \<Rightarrow> (Inl (Error ''scrypt''), w2)
      | (Some dpasswd, w2) \<Rightarrow>
     (let epasswd = slice 0 16 dpasswd;
          fpasswd = slice 16 32 dpasswd
      in
     (case randomBytes 16 w2 of (iv, w3) \<Rightarrow>
     (case createCipheriv ''aes-128-ctr'' epasswd iv w3 of
        (Inl e, w4) \<Rightarrow> (Inl e, w4)
      | (Inr cipher, w4) \<Rightarrow>
     (case cipher_update P cipher (prvkey key) w4 of ((out, cipher'), w5) \<Rightarrow>
     (let ciphertext = out @ cipher_final cipher' in
     (case Buffer_hex ciphertext of
        None \<Rightarrow> (Inl (TypeError ''Invalid hex string''), w5)
      | Some ciphertext_bytes \<Rightarrow>
     (case ethutil_sha3 P (fpasswd @ ciphertext_bytes) w5 of (mac, w6) \<Rightarrow>
        (Inr \<lparr>key_address = toString_hex (addr key),
              key_crypto = \<lparr>
                crypto_cipher = ''aes-128-ctr'',
                crypto_ciphertext = ciphertext,
                crypto_cipherparams = \<lparr>cipherparams_iv = toString_hex iv\<rparr>,
                crypto_kdf = ''scrypt'',
                crypto_kdfparams = \<lparr>
                  kdfparams_dklen = ScryptDKLen,
                  kdfparams_n = ScryptN,
                  kdfparams_p = ScryptP,
                  kdfparams_r = ScryptR,
                  kdfparams_salt = toString_hex salt\<rparr>,
                crypto_mac = toString_hex mac\<rparr>,
              key_version = 3\<rparr>, w6))))))))))"

subsection \<open>DecryptKey and DecryptKeyV3\<close>

text \<open>\<^verbatim>\<open>DecryptKeyV3\<close>: the two guards (loose comparisons with a string), then the salt,
  the key derivation with the parameters of the record, the initialization vector and
  the ciphertext, the mac and its loose comparison with the stored one, and only then the
  cipher. A conversion that throws inside a comparison ends the function with what it
  throws.\<close>

definition DecryptKeyV3 :: "prims \<Rightarrow> parsedCrypto \<Rightarrow> string \<Rightarrow> world \<Rightarrow> (exn + string) \<times> world" where
  "DecryptKeyV3 P cj passwd w =
     (let cipher = parsed_cipher cj in
     (case js_loose_eq_string cipher ''aes-128-ctr'' of
        Inl e \<Rightarrow> (Inl e, w)
      | Inr cipher_supported \<Rightarrow>
      if \<not> cipher_supported then
        (case js_ToString_opt cipher of
           Inl e \<Rightarrow> (Inl e, w)
         | Inr name \<Rightarrow> (Inl (Throw (''Cipher not support: '' @ name)), w))
      else
     (case js_loose_eq_string (parsed_kdf cj) ''scrypt'' of
        Inl e \<Rightarrow> (Inl e, w)
      | Inr kdf_supported \<Rightarrow>
      if \<not> kdf_supported then (Inl (Throw ''only support scrypt''), w)
      else
     (case Buffer_hex (kdfparams_salt (parsed_kdfparams cj)) of
        None \<Rightarrow> (Inl (TypeError ''Invalid hex string''), w)
      | Some salt \<Rightarrow>
     (case scrypt_call P passwd
             (kdfparams_n (parsed_kdfparams cj))
             (kdfparams_r (parsed_kdfparams cj))
             (kdfparams_p (parsed_kdfparams cj))
             (kdfparams_dklen (parsed_kdfparams cj)) salt w of
        (None, w1) \<Rightarrow> (Inl (Error ''scrypt''), w1)
      | (Some dpasswd, w1) \<Rightarrow>
     (let mac = parsed_mac cj in
     (case Buffer_hex (cipherparams_iv (parsed_cipherparams cj)) of
        None \<Rightarrow> (Inl (TypeError ''Invalid hex string''), w1)
      | Some iv \<Rightarrow>
     (case Buffer_hex (parsed_ciphertext cj) of
        None \<Rightarrow> (Inl (TypeError ''Invalid hex string''), w1)
      | Some ciphertext \<Rightarrow>
     (case ethutil_sha3 P (slice 16 32 dpasswd @ ciphertext) w1 of (hash, w2) \<Rightarrow>
     (let calculatedMAC = toString_hex hash in
     (case js_loose_eq_string mac calculatedMAC of
        Inl e \<Rightarrow> (Inl e, w2)
      | Inr mac_equal \<Rightarrow>
      if \<not> mac_equal then
        (Inl (Throw ''could not decrypt key with given passphrase''), w2)
      else
     (case createCipheriv ''aes-128-ctr'' (slice 0 16 dpasswd) iv w2 of
        (Inl e, w3) \<Rightarrow> (Inl e, w3)
      | (Inr cipher', w3) \<Rightarrow>
     (case cipher_update P cipher' ciphertext w3 of ((plaintext, cipher''), w4) \<Rightarrow>
        (Inr (plaintext @ cipher_final cipher''), w4))))))))))))))"

text \<open>\<^verbatim>\<open>DecryptKey\<close>: the guard is \<^verbatim>\<open>version && version == "3"\<close>; the comparison is made
  only for a truthy version.\<close>

definition DecryptKey :: "prims \<Rightarrow> keyJsonArg \<Rightarrow> string \<Rightarrow> world \<Rightarrow> (exn + string) \<times> world" where
  "DecryptKey P keyJsonStr passwd w =
     (case JSON_parse keyJsonStr of
        Inl e \<Rightarrow> (Inl e, w)
      | Inr keyJson \<Rightarrow>
          (let version = parsed_version keyJson in
           if \<not> js_truthy version then (Inl (Throw ''version must be 3''), w)
           else
          (case js_loose_eq_string version ''3'' of
             Inl e \<Rightarrow> (Inl e, w)
           | Inr version_3 \<Rightarrow>
               if version_3 then DecryptKeyV3 P (parsed_crypto keyJson) passwd w
               else (Inl (Throw ''version must be 3''), w))))"

section \<open>Notions used to state the properties\<close>

text \<open>The key derivation, called as \<^verbatim>\<open>EncryptKey\<close> calls it, returns a derived key of the
  requested length for this passphrase and salt.\<close>

definition kdf_delivers :: "prims \<Rightarrow> string \<Rightarrow> buffer \<Rightarrow> bool" where
  "kdf_delivers P passwd salt =
     (case scrypt_hashSync P passwd ScryptN ScryptR ScryptP ScryptDKLen salt of
        None \<Rightarrow> False
      | Some d \<Rightarrow> int (length d) = ScryptDKLen)"

text \<open>The library calls made between two worlds, and the kinds of call.\<close>

definition new_calls :: "world \<Rightarrow> world \<Rightarrow> call list" where
  "new_calls w w' = drop (length (calls w)) (calls w')"



text \<open>The record \<^verbatim>\<open>EncryptKey\<close> builds from a salt, an initialization vector and a
  derived key, and the result of \<^verbatim>\<open>DecryptKeyV3\<close> on a record with a string for its mac,
  from that mac, a derived key, an initialization vector and a ciphertext, in closed form.
  Both are proved equal to what the functions compute (\<open>EncryptKey_result\<close>,
  \<open>DecryptKeyV3_result\<close>).\<close>

definition encrypted :: "prims \<Rightarrow> keypair \<Rightarrow> buffer \<Rightarrow> buffer \<Rightarrow> buffer \<Rightarrow> keyJson" where
  "encrypted P key salt iv d =
     \<lparr>key_address = toString_hex (addr key),
      key_crypto = \<lparr>
        crypto_cipher = ''aes-128-ctr'',
        crypto_ciphertext = toString_hex (xor_keystream P (take 16 d) iv 0 (prvkey key)),
        crypto_cipherparams = \<lparr>cipherparams_iv = toString_hex iv\<rparr>,
        crypto_kdf = ''scrypt'',
        crypto_kdfparams = \<lparr>
          kdfparams_dklen = 32,
          kdfparams_n = 262144,
          kdfparams_p = 1,
          kdfparams_r = 8,
          kdfparams_salt = toString_hex salt\<rparr>,
        crypto_mac =
          toString_hex (sha3 P (drop 16 (take 32 d) @ xor_keystream P (take 16 d) iv 0 (prvkey key)))\<rparr>,
      key_version = 3\<rparr>"

definition decrypted :: "prims \<Rightarrow> string \<Rightarrow> buffer \<Rightarrow> buffer \<Rightarrow> buffer \<Rightarrow> exn + string" where
  "decrypted P mac d iv ciphertext =
     (if toString_hex (sha3 P (slice 16 32 d @ ciphertext)) \<noteq> mac
        then Inl (Throw ''could not decrypt key with given passphrase'')
      else if length iv \<noteq> 16 \<and> length iv \<noteq> 0 then Inl (Error ''Invalid IV length'')
      else if length (slice 0 16 d) \<noteq> 16 then Inl (Error ''Invalid key length'')
      else Inr (toString_hex (xor_keystream P (slice 0 16 d) iv 0 ciphertext)))"



text \<open>The two halves of a 32-byte derived key, position by position: bytes 0 to 15 and
  bytes 16 to 31.\<close>

definition encryption_subkey :: "buffer \<Rightarrow> buffer" where
  "encryption_subkey d = map (\<lambda>i. d ! i) [0 ..< 16]"

definition mac_subkey :: "buffer \<Rightarrow> buffer" where
  "mac_subkey d = map (\<lambda>i. d ! i) [16 ..< 32]"

text \<open>The \<open>k\<close>-th block of 32 bytes the entropy source delivers from a world on, and the
  world after \<open>k\<close> calls of \<^verbatim>\<open>crypto.randomBytes(32)\<close>.\<close>

definition draw :: "world \<Rightarrow> nat \<Rightarrow> buffer" where
  "draw w k = map (entropy w) [consumed w + 32 * k ..< consumed w + 32 * k + 32]"

definition after_draws :: "world \<Rightarrow> nat \<Rightarrow> world" where
  "after_draws w k = w\<lparr>consumed := consumed w + 32 * k, calls := calls w @ replicate k (RandomBytes 32)\<rparr>"

text \<open>Tampering with a record: bit \<open>i\<close> of a buffer flipped (bit \<open>i mod 8\<close> of byte
  \<open>i div 8\<close>), the same on the bytes a hex field encodes, and the record with one of its
  four hex fields changed so.\<close>

definition flip_bit :: "nat \<Rightarrow> buffer \<Rightarrow> buffer" where
  "flip_bit i buf =
     (if i div 8 < length buf then buf[i div 8 := (buf ! (i div 8)) XOR push_bit (i mod 8) 1] else buf)"

definition flip_hex :: "nat \<Rightarrow> string \<Rightarrow> string" where
  "flip_hex i s = (case Buffer_hex s of None \<Rightarrow> s | Some buf \<Rightarrow> toString_hex (flip_bit i buf))"

definition tamper_ciphertext :: "nat \<Rightarrow> keyJson \<Rightarrow> keyJson" where
  "tamper_ciphertext i r =
     r\<lparr>key_crypto := (key_crypto r)\<lparr>crypto_ciphertext := flip_hex i (crypto_ciphertext (key_crypto r))\<rparr>\<rparr>"

definition tamper_salt :: "nat \<Rightarrow> keyJson \<Rightarrow> keyJson" where
  "tamper_salt i r =
     r\<lparr>key_crypto := (key_crypto r)\<lparr>crypto_kdfparams :=
        (crypto_kdfparams (key_crypto r))\<lparr>kdfparams_salt :=
           flip_hex i (kdfparams_salt (crypto_kdfparams (key_crypto r)))\<rparr>\<rparr>\<rparr>"

definition tamper_iv :: "nat \<Rightarrow> keyJson \<Rightarrow> keyJson" where
  "tamper_iv i r =
     r\<lparr>key_crypto := (key_crypto r)\<lparr>crypto_cipherparams :=
        (crypto_cipherparams (key_crypto r))\<lparr>cipherparams_iv :=
           flip_hex i (cipherparams_iv (crypto_cipherparams (key_crypto r)))\<rparr>\<rparr>\<rparr>"

definition tamper_mac :: "nat \<Rightarrow> keyJson \<Rightarrow> keyJson" where
  "tamper_mac i r =
     r\<lparr>key_crypto := (key_crypto r)\<lparr>crypto_mac := flip_hex i (crypto_mac (key_crypto r))\<rparr>\<rparr>"

section \<open>A concrete instance\<close>

text \<open>The theorems below hold for every choice of the library functions. To run the
  model on concrete inputs, the library functions are instantiated with small stand-ins:
  a derivation, a key stream and a hash that are simple sums, and, for key validity, the
  test \<^verbatim>\<open>secp256k1.privateKeyVerify\<close> makes: 32 bytes that, read as a big-endian
  number, are non-zero and below the order of the curve.\<close>

definition secp256k1_n :: int where
  "secp256k1_n = 0xFFFFFFFFFFFFFFFFFFFFFFFFFFFFFFFEBAAEDCE6AF48A03BBFD25E8CD0364141"

definition be_int :: "buffer \<Rightarrow> int" where
  "be_int buf = foldl (\<lambda>a b. 256 * a + uint b) 0 buf"

definition secp256k1_privateKeyVerify :: "buffer \<Rightarrow> bool" where
  "secp256k1_privateKeyVerify buf \<longleftrightarrow> length buf = 32 \<and> 0 < be_int buf \<and> be_int buf < secp256k1_n"

definition demo_scrypt :: "string \<Rightarrow> int \<Rightarrow> int \<Rightarrow> int \<Rightarrow> int \<Rightarrow> buffer \<Rightarrow> buffer option" where
  "demo_scrypt passwd N r p dklen salt =
     (if N \<le> 1 \<or> r \<le> 0 \<or> p \<le> 0 \<or> dklen \<le> 0 then None
      else Some (map (\<lambda>i. of_nat (7 * i + length passwd) + sum_list salt) [0 ..< nat dklen]))"

definition demo_keystream :: "buffer \<Rightarrow> buffer \<Rightarrow> nat \<Rightarrow> byte" where
  "demo_keystream key iv i = sum_list key + 3 * sum_list iv + of_nat (5 * i)"

definition demo_sha3 :: "buffer \<Rightarrow> buffer" where
  "demo_sha3 buf = map (\<lambda>i. sum_list buf + of_nat (13 * i + length buf)) [0 ..< 32]"

definition demo :: prims where
  "demo = \<lparr>scrypt_hashSync = demo_scrypt,
           aes_128_ctr_keystream = demo_keystream,
           sha3 = demo_sha3,
           isValidPrivate = secp256k1_privateKeyVerify,
           privateToPublic = (\<lambda>prv. prv @ rev prv),
           pubToAddress = (\<lambda>pub. drop 12 (demo_sha3 pub))\<rparr>"

definition demo_world :: world where
  "demo_world = \<lparr>entropy = (\<lambda>i. of_nat (37 * i + 11)), consumed = 0, calls = []\<rparr>"

definition demo_passwd :: string where
  "demo_passwd = ''correct horse battery staple''"

definition demo_key :: keypair where
  "demo_key =
     \<lparr>prvkey = [1, 2, 3, 4, 5, 6, 7, 8, 9, 10, 11, 12, 13, 14, 15, 16, 17, 18, 19, 20, 21, 22, 23,
                24, 25, 26, 27, 28, 29, 30, 31, 32],
      pubkey = [1, 2, 3, 4, 5, 6, 7, 8, 9, 10, 11, 12, 13, 14, 15, 16, 17, 18, 19, 20, 21, 22, 23,
                24, 25, 26, 27, 28, 29, 30, 31, 32, 32, 31, 30, 29, 28, 27, 26, 25, 24, 23, 22, 21,
                20, 19, 18, 17, 16, 15, 14, 13, 12, 11, 10, 9, 8, 7, 6, 5, 4, 3, 2, 1],
      addr = [252, 9, 22, 35, 48, 61, 74, 87, 100, 113, 126, 139, 152, 165, 178, 191, 204, 217,
              230, 243]\<rparr>"

text \<open>The salt, the initialization vector, the derived key, the ciphertext and the mac of
  \<^verbatim>\<open>EncryptKey\<close> on \<open>demo_key\<close> and \<open>demo_passwd\<close> in \<open>demo_world\<close>, and the record
  it returns.\<close>

definition demo_salt :: buffer where
  "demo_salt = [11, 48, 85, 122, 159, 196, 233, 14, 51, 88, 125, 162, 199, 236, 17, 54, 91, 128,
                165, 202, 239, 20, 57, 94, 131, 168, 205, 242, 23, 60, 97, 134]"

definition demo_iv :: buffer where
  "demo_iv = [171, 208, 245, 26, 63, 100, 137, 174, 211, 248, 29, 66, 103, 140, 177, 214]"

definition demo_dpasswd :: buffer where
  "demo_dpasswd = [44, 51, 58, 65, 72, 79, 86, 93, 100, 107, 114, 121, 128, 135, 142, 149, 156,
                   163, 170, 177, 184, 191, 198, 205, 212, 219, 226, 233, 240, 247, 254, 5]"

definition demo_ciphertext :: buffer where
  "demo_ciphertext = [33, 39, 41, 43, 49, 63, 57, 75, 65, 71, 89, 91, 81, 111, 105, 123, 97, 103,
                      105, 107, 145, 159, 153, 139, 129, 135, 185, 187, 177, 175, 169, 155]"

definition demo_mac :: buffer where
  "demo_mac = [184, 197, 210, 223, 236, 249, 6, 19, 32, 45, 58, 71, 84, 97, 110, 123, 136, 149,
               162, 175, 188, 201, 214, 227, 240, 253, 10, 23, 36, 49, 62, 75]"

definition demo_record :: keyJson where
  "demo_record =
     \<lparr>key_address = ''fc091623303d4a5764717e8b98a5b2bfccd9e6f3'',
      key_crypto = \<lparr>
        crypto_cipher = ''aes-128-ctr'',
        crypto_ciphertext = ''2127292b313f394b4147595b516f697b6167696b919f998b8187b9bbb1afa99b'',
        crypto_cipherparams = \<lparr>cipherparams_iv = ''abd0f51a3f6489aed3f81d42678cb1d6''\<rparr>,
        crypto_kdf = ''scrypt'',
        crypto_kdfparams = \<lparr>
          kdfparams_dklen = 32,
          kdfparams_n = 262144,
          kdfparams_p = 1,
          kdfparams_r = 8,
          kdfparams_salt = ''0b30557a9fc4e90e33587da2c7ec11365b80a5caef14395e83a8cdf2173c6186''\<rparr>,
        crypto_mac = ''b8c5d2dfecf90613202d3a4754616e7b8895a2afbcc9d6e3f0fd0a1724313e4b''\<rparr>,
      key_version = 3\<rparr>"




text \<open>Two entropy sources for \<^verbatim>\<open>GenKey\<close>: one that delivers \<open>k\<close> blocks of zero bytes
  before a block of ones, and one that delivers zero bytes forever.\<close>

definition demo_world_late :: "nat \<Rightarrow> world" where
  "demo_world_late k = \<lparr>entropy = (\<lambda>i. if i < 32 * k then 0 else 1), consumed = 0, calls = []\<rparr>"

definition demo_world_stuck :: world where
  "demo_world_stuck = \<lparr>entropy = (\<lambda>i. 0), consumed = 0, calls = []\<rparr>"

text \<open>The initialization vector of \<open>demo_record\<close> with its lowest bit flipped and what
  the ciphertext decrypts to under it; the key derived from the salt with its lowest bit
  flipped; and a second entropy source.\<close>

definition demo_iv_flipped :: buffer where
  "demo_iv_flipped = [170, 208, 245, 26, 63, 100, 137, 174, 211, 248, 29, 66, 103, 140, 177, 214]"

definition demo_plaintext_flipped_iv :: buffer where
  "demo_plaintext_flipped_iv = [60, 5, 14, 7, 0, 9, 2, 11, 4, 13, 22, 15, 8, 49, 10, 19, 12, 21, 30, 23,
     16, 25, 18, 27, 20, 29, 38, 31, 24, 1, 26, 35]"

definition demo_dpasswd_flipped_salt :: buffer where
  "demo_dpasswd_flipped_salt = [43, 50, 57, 64, 71, 78, 85, 92, 99, 106, 113, 120, 127, 134, 141,
     148, 155, 162, 169, 176, 183, 190, 197, 204, 211, 218, 225, 232, 239, 246, 253, 4]"

definition demo_world2 :: world where
  "demo_world2 = \<lparr>entropy = (\<lambda>i. of_nat (41 * i + 5)), consumed = 0, calls = []\<rparr>"









section \<open>Lemmas\<close>

subsection \<open>The hex encoding\<close>

lemma hexValue_hexDigit: "d < 16 \<Longrightarrow> hexValue (hexDigit d) = Some d"
  by (auto simp add: hexValue_def hexDigit_def Let_def)

lemma unat_byte_div_16: "unat (b :: byte) div 16 < 16"
proof -
  have "unat b < 2 ^ 8" using unsigned_less [of b] by simp
  then show ?thesis by simp
qed

lemma toString_hex_Nil: "toString_hex [] = []"
  by (simp add: toString_hex_def)

lemma toString_hex_Cons:
  "toString_hex (b # buf) = hexDigit (unat b div 16) # hexDigit (unat b mod 16) # toString_hex buf"
  by (simp add: toString_hex_def)

lemma toString_hex_append: "toString_hex (a @ b) = toString_hex a @ toString_hex b"
  by (simp add: toString_hex_def)

lemma length_toString_hex: "length (toString_hex buf) = 2 * length buf"
  by (induction buf) (simp_all add: toString_hex_def)

lemma hex_decode_toString_hex: "hex_decode (toString_hex buf) = buf"
proof (induction buf)
  case Nil
  show ?case by (simp add: toString_hex_Nil)
next
  case (Cons b buf)
  then show ?case
    by (simp add: toString_hex_Cons hexValue_hexDigit unat_byte_div_16)
qed

lemma Buffer_hex_toString_hex: "Buffer_hex (toString_hex buf) = Some buf"
  by (simp add: Buffer_hex_def length_toString_hex hex_decode_toString_hex)

lemma Buffer_hex_Some: "Buffer_hex str = Some buf \<longleftrightarrow> even (length str) \<and> buf = hex_decode str"
  by (auto simp add: Buffer_hex_def)

lemma Buffer_hex_None: "Buffer_hex str = None \<longleftrightarrow> odd (length str)"
  by (simp add: Buffer_hex_def)

lemma toString_hex_inject: "toString_hex a = toString_hex b \<longleftrightarrow> a = b"
  by (metis Buffer_hex_toString_hex option.inject)

lemma hexDigit_lowercase_all: "\<forall>d \<in> set [0 ..< 16]. hexDigit d \<in> set ''0123456789abcdef''"
  by code_simp

lemma hexDigit_lowercase: "d < 16 \<Longrightarrow> hexDigit d \<in> set ''0123456789abcdef''"
  using hexDigit_lowercase_all by simp

lemma toString_hex_lowercase: "set (toString_hex buf) \<subseteq> set ''0123456789abcdef''"
proof (induction buf)
  case Nil
  show ?case by (simp add: toString_hex_Nil)
next
  case (Cons b buf)
  have "hexDigit (unat b div 16) \<in> set ''0123456789abcdef''"
    by (rule hexDigit_lowercase) (rule unat_byte_div_16)
  moreover have "hexDigit (unat b mod 16) \<in> set ''0123456789abcdef''"
    by (rule hexDigit_lowercase) simp
  ultimately show ?case using Cons.IH by (simp add: toString_hex_Cons)
qed

lemma hexDigit_values:
  "hexDigit 0 = CHR ''0''" "hexDigit 1 = CHR ''1''" "hexDigit (Suc 0) = CHR ''1''"
  "hexDigit 2 = CHR ''2''" "hexDigit 3 = CHR ''3''"
  "hexDigit 4 = CHR ''4''" "hexDigit 5 = CHR ''5''" "hexDigit 6 = CHR ''6''" "hexDigit 7 = CHR ''7''"
  "hexDigit 8 = CHR ''8''" "hexDigit 9 = CHR ''9''" "hexDigit 10 = CHR ''a''" "hexDigit 11 = CHR ''b''"
  "hexDigit 12 = CHR ''c''" "hexDigit 13 = CHR ''d''" "hexDigit 14 = CHR ''e''" "hexDigit 15 = CHR ''f''"
  by code_simp+

lemmas hex_eval = toString_hex_Nil toString_hex_Cons hexDigit_values

subsection \<open>JSON values\<close>

lemma as_parsed_simps:
  "parsed_version (as_parsed r) = Some (JNum (key_version r))"
  "parsed_crypto (as_parsed r) = as_parsed_crypto (key_crypto r)"
  "parsed_cipher (as_parsed_crypto cj) = Some (JStr (crypto_cipher cj))"
  "parsed_kdf (as_parsed_crypto cj) = Some (JStr (crypto_kdf cj))"
  "parsed_mac (as_parsed_crypto cj) = Some (JStr (crypto_mac cj))"
  "parsed_ciphertext (as_parsed_crypto cj) = crypto_ciphertext cj"
  "parsed_cipherparams (as_parsed_crypto cj) = crypto_cipherparams cj"
  "parsed_kdfparams (as_parsed_crypto cj) = crypto_kdfparams cj"
  by (simp_all add: as_parsed_def as_parsed_crypto_def)

lemma js_ToNumber_literals:
  "js_ToNumber ''3'' = Some 3"
  "js_ToNumber ''aes-128-ctr'' = None"
  "js_ToNumber ''scrypt'' = None"
  by code_simp+

lemma js_loose_eq_JStr: "js_loose_eq_string (Some (JStr s)) str = Inr (s = str)"
  by (simp add: js_loose_eq_string_def)

lemma js_loose_eq_JNum_3: "js_loose_eq_string (Some (JNum n)) ''3'' = Inr (n = 3)"
  by (auto simp add: js_loose_eq_string_def js_ToNumber_literals)

lemma js_truthy_JNum: "js_truthy (Some (JNum n)) \<longleftrightarrow> n \<noteq> 0"
  by (simp add: js_truthy_def)

lemma js_ToString_opt_JStr: "js_ToString_opt (Some (JStr s)) = Inr s"
  by (simp add: js_ToString_opt_def)


lemmas parsed_simps = as_parsed_simps js_loose_eq_JStr js_loose_eq_JNum_3 js_truthy_JNum
  js_ToString_opt_JStr

subsection \<open>The key stream\<close>

lemma length_xor_keystream: "length (xor_keystream P key iv off buf) = length buf"
  by (simp add: xor_keystream_def)

lemma nth_xor_keystream:
  "i < length buf \<Longrightarrow>
     xor_keystream P key iv off buf ! i = buf ! i XOR aes_128_ctr_keystream P key iv (off + i)"
  by (simp add: xor_keystream_def)

lemma xor_keystream_involution:
  "xor_keystream P key iv off (xor_keystream P key iv off buf) = buf"
  by (rule nth_equalityI) (simp_all add: length_xor_keystream nth_xor_keystream xor.assoc)

subsection \<open>EncryptKey and DecryptKeyV3 in closed form\<close>

lemma ScryptN_value: "ScryptN = 262144"
  by (simp add: ScryptN_def)

lemma kdf_delivers_iff:
  "kdf_delivers P passwd salt \<longleftrightarrow>
     (\<exists>d. scrypt_hashSync P passwd 262144 8 1 32 salt = Some d \<and> length d = 32)"
  by (auto simp add: kdf_delivers_def ScryptN_value ScryptR_def ScryptP_def ScryptDKLen_def
      split: option.splits)

lemma EncryptKey_result:
  assumes "scrypt_hashSync P passwd 262144 8 1 32 (fst (randomBytes 32 w)) = Some d"
    and "16 \<le> length d"
  shows "fst (EncryptKey P key passwd w) =
           Inr (encrypted P key (fst (randomBytes 32 w))
                  (map (entropy w) [consumed w + 32 ..< consumed w + 48]) d)"
  using assms
  by (simp add: EncryptKey_def randomBytes_def scrypt_call_def logged_def ScryptN_value ScryptR_def
      ScryptP_def ScryptDKLen_def slice_def createCipheriv_def cipher_update_def cipher_final_def
      toString_hex_Nil Buffer_hex_toString_hex ethutil_sha3_def encrypted_def Let_def add.commute)

lemma DecryptKeyV3_result:
  assumes "crypto_cipher cj = ''aes-128-ctr''" and "crypto_kdf cj = ''scrypt''"
    and "Buffer_hex (kdfparams_salt (crypto_kdfparams cj)) = Some salt"
    and "scrypt_hashSync P passwd (kdfparams_n (crypto_kdfparams cj)) (kdfparams_r (crypto_kdfparams cj))
           (kdfparams_p (crypto_kdfparams cj)) (kdfparams_dklen (crypto_kdfparams cj)) salt = Some d"
    and "Buffer_hex (cipherparams_iv (crypto_cipherparams cj)) = Some iv"
    and "Buffer_hex (crypto_ciphertext cj) = Some ciphertext"
  shows "fst (DecryptKeyV3 P (as_parsed_crypto cj) passwd w) = decrypted P (crypto_mac cj) d iv ciphertext"
  using assms
  by (auto simp add: DecryptKeyV3_def scrypt_call_def ethutil_sha3_def createCipheriv_def
      cipher_update_def cipher_final_def toString_hex_Nil decrypted_def Let_def parsed_simps)

lemma DecryptKey_JsonText:
  "key_version r = 3 \<Longrightarrow>
     DecryptKey P (JsonText r) passwd w = DecryptKeyV3 P (as_parsed_crypto (key_crypto r)) passwd w"
  by (simp add: DecryptKey_def JSON_parse_def parsed_simps)

lemma DecryptKey_encrypted:
  assumes d: "scrypt_hashSync P passwd 262144 8 1 32 salt = Some d"
    and len: "16 \<le> length d" and iv: "length iv = 16"
  shows "fst (DecryptKey P (JsonText (encrypted P key salt iv d)) passwd w) =
           Inr (toString_hex (prvkey key))"
proof -
  let ?r = "encrypted P key salt iv d"
  have v: "key_version ?r = 3" by (simp add: encrypted_def)
  have "fst (DecryptKeyV3 P (as_parsed_crypto (key_crypto ?r)) passwd w) =
          decrypted P (crypto_mac (key_crypto ?r)) d iv (xor_keystream P (take 16 d) iv 0 (prvkey key))"
    by (rule DecryptKeyV3_result [where salt = salt])
      (simp_all add: encrypted_def Buffer_hex_toString_hex d)
  also have "\<dots> = Inr (toString_hex (prvkey key))"
    using len iv by (simp add: decrypted_def encrypted_def slice_def xor_keystream_involution)
  finally show ?thesis using v by (simp add: DecryptKey_JsonText)
qed

subsection \<open>The concrete instance, evaluated\<close>

lemma demo_randomBytes_32: "fst (randomBytes 32 demo_world) = demo_salt"
  unfolding randomBytes_def demo_world_def demo_salt_def by code_simp

lemma demo_randomBytes_16: "map (entropy demo_world) [consumed demo_world + 32 ..< consumed demo_world + 48] = demo_iv"
  unfolding demo_world_def demo_iv_def by code_simp

lemma demo_scrypt_value: "scrypt_hashSync demo demo_passwd 262144 8 1 32 demo_salt = Some demo_dpasswd"
  unfolding demo_def demo_scrypt_def demo_passwd_def demo_salt_def demo_dpasswd_def by code_simp

lemma demo_ciphertext_value:
  "xor_keystream demo (take 16 demo_dpasswd) demo_iv 0 (prvkey demo_key) = demo_ciphertext"
  unfolding demo_def demo_keystream_def xor_keystream_def demo_dpasswd_def demo_iv_def demo_key_def
    demo_ciphertext_def
  by code_simp

lemma demo_mac_value: "sha3 demo (drop 16 (take 32 demo_dpasswd) @ demo_ciphertext) = demo_mac"
  unfolding demo_def demo_sha3_def demo_dpasswd_def demo_ciphertext_def demo_mac_def by code_simp

lemma demo_hex_values:
  "toString_hex demo_salt = ''0b30557a9fc4e90e33587da2c7ec11365b80a5caef14395e83a8cdf2173c6186''"
  "toString_hex demo_iv = ''abd0f51a3f6489aed3f81d42678cb1d6''"
  "toString_hex demo_ciphertext = ''2127292b313f394b4147595b516f697b6167696b919f998b8187b9bbb1afa99b''"
  "toString_hex demo_mac = ''b8c5d2dfecf90613202d3a4754616e7b8895a2afbcc9d6e3f0fd0a1724313e4b''"
  "toString_hex (addr demo_key) = ''fc091623303d4a5764717e8b98a5b2bfccd9e6f3''"
  "toString_hex (prvkey demo_key) = ''0102030405060708090a0b0c0d0e0f101112131415161718191a1b1c1d1e1f20''"
  by (simp_all add: demo_salt_def demo_iv_def demo_ciphertext_def demo_mac_def demo_key_def hex_eval)

lemma demo_record_encrypted: "encrypted demo demo_key demo_salt demo_iv demo_dpasswd = demo_record"
  by (simp add: encrypted_def demo_ciphertext_value demo_mac_value demo_hex_values demo_record_def)

lemma demo_kdf_delivers: "kdf_delivers demo demo_passwd (fst (randomBytes 32 demo_world))"
  by (simp add: kdf_delivers_iff demo_randomBytes_32 demo_scrypt_value demo_dpasswd_def)

lemma demo_EncryptKey: "fst (EncryptKey demo demo_key demo_passwd demo_world) = Inr demo_record"
proof -
  have "scrypt_hashSync demo demo_passwd 262144 8 1 32 (fst (randomBytes 32 demo_world)) = Some demo_dpasswd"
    by (simp add: demo_randomBytes_32 demo_scrypt_value)
  moreover have "16 \<le> length demo_dpasswd" by (simp add: demo_dpasswd_def)
  ultimately have "fst (EncryptKey demo demo_key demo_passwd demo_world) =
      Inr (encrypted demo demo_key (fst (randomBytes 32 demo_world))
        (map (entropy demo_world) [consumed demo_world + 32 ..< consumed demo_world + 48]) demo_dpasswd)"
    by (rule EncryptKey_result)
  then show ?thesis
    by (simp only: demo_randomBytes_32 demo_randomBytes_16 demo_record_encrypted)
qed

subsection \<open>The mac check and the library calls of DecryptKey\<close>







lemma DecryptKeyV3_hex:
  "fst (DecryptKeyV3 P cj passwd w) = Inr s \<Longrightarrow> \<exists>buf. s = toString_hex buf"
  by (auto simp add: DecryptKeyV3_def scrypt_call_def ethutil_sha3_def createCipheriv_def
      cipher_update_def cipher_final_def toString_hex_Nil Let_def
      split: option.splits if_splits sum.splits)

lemma DecryptKey_hex:
  "fst (DecryptKey P a passwd w) = Inr s \<Longrightarrow> \<exists>buf. s = toString_hex buf"
  by (auto simp add: DecryptKey_def JSON_parse_def Let_def dest: DecryptKeyV3_hex
      split: keyJsonArg.splits if_splits sum.splits)






subsection \<open>The concrete instance under a wrong passphrase\<close>





lemma demo_record_fields:
  "key_version demo_record = 3"
  "crypto_cipher (key_crypto demo_record) = ''aes-128-ctr''"
  "crypto_kdf (key_crypto demo_record) = ''scrypt''"
  "crypto_mac (key_crypto demo_record) = ''b8c5d2dfecf90613202d3a4754616e7b8895a2afbcc9d6e3f0fd0a1724313e4b''"
  by (simp_all add: demo_record_def)

lemma demo_record_iv:
  "Buffer_hex (cipherparams_iv (crypto_cipherparams (key_crypto demo_record))) = Some demo_iv"
  unfolding demo_record_encrypted [symmetric]
  by (simp add: encrypted_def Buffer_hex_toString_hex)

lemma demo_DecryptKey:
  "fst (DecryptKey demo (JsonText demo_record) demo_passwd w) =
     Inr ''0102030405060708090a0b0c0d0e0f101112131415161718191a1b1c1d1e1f20''"
  unfolding demo_record_encrypted [symmetric]
  by (simp add: DecryptKey_encrypted demo_scrypt_value demo_dpasswd_def demo_iv_def demo_hex_values)

subsection \<open>More on EncryptKey: the entropy it draws, its calls, the sub-keys\<close>

lemma randomBytes_logged: "fst (randomBytes k (logged c w)) = fst (randomBytes k w)"
  by (simp add: randomBytes_def logged_def)

lemma length_randomBytes: "length (fst (randomBytes k w)) = k"
  by (simp add: randomBytes_def)

lemma randomBytes_16_after_32:
  "fst (randomBytes 16 (snd (randomBytes 32 w))) = map (entropy w) [consumed w + 32 ..< consumed w + 48]"
  by (simp add: randomBytes_def logged_def add.commute)

lemma EncryptKey_Inr:
  assumes "fst (EncryptKey P key passwd w) = Inr r"
  shows "\<exists>d. scrypt_hashSync P passwd 262144 8 1 32 (fst (randomBytes 32 w)) = Some d \<and>
             16 \<le> length d \<and>
             r = encrypted P key (fst (randomBytes 32 w)) (fst (randomBytes 16 (snd (randomBytes 32 w)))) d"
  using assms
  by (auto simp add: EncryptKey_def randomBytes_def scrypt_call_def logged_def ScryptN_value ScryptR_def
      ScryptP_def ScryptDKLen_def slice_def createCipheriv_def cipher_update_def cipher_final_def
      toString_hex_Nil Buffer_hex_toString_hex ethutil_sha3_def encrypted_def Let_def add.commute
      split: option.splits if_splits)

lemma slice_0_16: "length d = 32 \<Longrightarrow> slice 0 16 d = encryption_subkey d"
  unfolding slice_def encryption_subkey_def
  by (rule nth_equalityI) (simp_all add: nth_map_upt del: upt_rec_numeral upt.simps)

lemma slice_16_32: "length d = 32 \<Longrightarrow> slice 16 32 d = mac_subkey d"
  unfolding slice_def mac_subkey_def
  by (rule nth_equalityI) (simp_all add: nth_map_upt del: upt_rec_numeral upt.simps)

lemma EncryptKey_calls:
  assumes "scrypt_hashSync P passwd 262144 8 1 32 (fst (randomBytes 32 w)) = Some d"
    and "16 \<le> length d"
  shows "new_calls w (snd (EncryptKey P key passwd w)) =
           [RandomBytes 32,
            ScryptHashSync passwd 262144 8 1 32 (fst (randomBytes 32 w)),
            RandomBytes 16,
            CreateCipheriv ''aes-128-ctr'' (slice 0 16 d) (fst (randomBytes 16 (snd (randomBytes 32 w)))),
            CipherUpdate (prvkey key),
            Sha3 (slice 16 32 d @ xor_keystream P (slice 0 16 d)
                   (fst (randomBytes 16 (snd (randomBytes 32 w)))) 0 (prvkey key))]"
  using assms
  by (simp add: EncryptKey_def randomBytes_def scrypt_call_def logged_def ScryptN_value ScryptR_def
      ScryptP_def ScryptDKLen_def slice_def createCipheriv_def cipher_update_def cipher_final_def
      toString_hex_Nil Buffer_hex_toString_hex ethutil_sha3_def new_calls_def Let_def add.commute)

lemma DecryptKeyV3_calls:
  assumes "crypto_cipher cj = ''aes-128-ctr''" and "crypto_kdf cj = ''scrypt''"
    and "Buffer_hex (kdfparams_salt (crypto_kdfparams cj)) = Some salt"
    and "scrypt_hashSync P passwd (kdfparams_n (crypto_kdfparams cj)) (kdfparams_r (crypto_kdfparams cj))
           (kdfparams_p (crypto_kdfparams cj)) (kdfparams_dklen (crypto_kdfparams cj)) salt = Some d"
    and "Buffer_hex (cipherparams_iv (crypto_cipherparams cj)) = Some iv"
    and "Buffer_hex (crypto_ciphertext cj) = Some ciphertext"
    and "length (slice 0 16 d) = 16" and "length iv = 16"
  shows "new_calls w (snd (DecryptKeyV3 P (as_parsed_crypto cj) passwd w)) =
     [ScryptHashSync passwd (kdfparams_n (crypto_kdfparams cj)) (kdfparams_r (crypto_kdfparams cj))
        (kdfparams_p (crypto_kdfparams cj)) (kdfparams_dklen (crypto_kdfparams cj)) salt,
      Sha3 (slice 16 32 d @ ciphertext)] @
     (if toString_hex (sha3 P (slice 16 32 d @ ciphertext)) \<noteq> crypto_mac cj then []
      else [CreateCipheriv ''aes-128-ctr'' (slice 0 16 d) iv, CipherUpdate ciphertext])"
  using assms
  by (auto simp add: DecryptKeyV3_def scrypt_call_def ethutil_sha3_def createCipheriv_def
      cipher_update_def logged_def new_calls_def Let_def parsed_simps)

lemma demo_record_hex_fields:
  "Buffer_hex (kdfparams_salt (crypto_kdfparams (key_crypto demo_record))) = Some demo_salt"
  "Buffer_hex (crypto_ciphertext (key_crypto demo_record)) = Some demo_ciphertext"
  "kdfparams_n (crypto_kdfparams (key_crypto demo_record)) = 262144"
  "kdfparams_r (crypto_kdfparams (key_crypto demo_record)) = 8"
  "kdfparams_p (crypto_kdfparams (key_crypto demo_record)) = 1"
  "kdfparams_dklen (crypto_kdfparams (key_crypto demo_record)) = 32"
  "crypto_mac (key_crypto demo_record) = toString_hex demo_mac"
  unfolding demo_record_encrypted [symmetric]
  by (simp_all add: encrypted_def Buffer_hex_toString_hex demo_ciphertext_value demo_mac_value)

lemma demo_subkeys:
  "encryption_subkey demo_dpasswd = [44, 51, 58, 65, 72, 79, 86, 93, 100, 107, 114, 121, 128, 135, 142, 149]"
  "mac_subkey demo_dpasswd = [156, 163, 170, 177, 184, 191, 198, 205, 212, 219, 226, 233, 240, 247, 254, 5]"
  using slice_0_16 [of demo_dpasswd] slice_16_32 [of demo_dpasswd]
  by (simp_all add: slice_def demo_dpasswd_def)

subsection \<open>The loop of GenKey\<close>

lemma randomBytes_32: "randomBytes 32 w = (draw w 0, after_draws w 1)"
  by (simp add: randomBytes_def draw_def after_draws_def logged_def)

lemma length_draw: "length (draw w k) = 32"
  by (simp add: draw_def)

lemma draw_after_draws: "draw (after_draws w j) k = draw w (j + k)"
  by (simp add: draw_def after_draws_def algebra_simps)

lemma after_draws_after_draws: "after_draws (after_draws w j) k = after_draws w (j + k)"
  by (simp add: after_draws_def algebra_simps replicate_add)

lemma GenKey_loop_step:
  "GenKey_loop P w = (if \<not> isValidPrivate P (draw w 0) then GenKey_loop P (after_draws w 1)
                      else Some (draw w 0, after_draws w 1))"
  by (subst GenKey_loop.simps) (simp add: randomBytes_32)

lemma GenKey_loop_first_valid:
  "(\<forall>j < k. \<not> isValidPrivate P (draw w j)) \<Longrightarrow> isValidPrivate P (draw w k) \<Longrightarrow>
     GenKey_loop P w = Some (draw w k, after_draws w (Suc k))"
proof (induction k arbitrary: w)
  case 0
  then show ?case by (subst GenKey_loop_step) simp
next
  case (Suc k)
  have inv0: "\<not> isValidPrivate P (draw w 0)" using Suc.prems(1) by simp
  have "GenKey_loop P (after_draws w 1) = Some (draw (after_draws w 1) k, after_draws (after_draws w 1) (Suc k))"
  proof (rule Suc.IH)
    show "\<forall>j<k. \<not> isValidPrivate P (draw (after_draws w 1) j)"
      using Suc.prems(1) by (simp add: draw_after_draws)
    show "isValidPrivate P (draw (after_draws w 1) k)"
      using Suc.prems(2) by (simp add: draw_after_draws)
  qed
  then show ?case
    using inv0 by (subst GenKey_loop_step) (simp add: draw_after_draws after_draws_after_draws)
qed

lemma GenKey_loop_returns_valid:
  assumes "GenKey_loop P w = Some y"
  shows "\<exists>k. (\<forall>j < k. \<not> isValidPrivate P (draw w j)) \<and> isValidPrivate P (draw w k) \<and>
             y = (draw w k, after_draws w (Suc k))"
proof -
  have "(\<lambda>(P, w) y. \<exists>k. (\<forall>j < k. \<not> isValidPrivate P (draw w j)) \<and> isValidPrivate P (draw w k) \<and>
             y = (draw w k, after_draws w (Suc k))) (P, w) y"
  proof (rule GenKey_loop.raw_induct [OF _ assms], goal_cases)
    case (1 loop P w y)
    show ?case
    proof (cases "isValidPrivate P (draw w 0)")
      case True
      with 1(2) have "y = (draw w 0, after_draws w (Suc 0))"
        by (simp add: randomBytes_32)
      with True show ?thesis by auto
    next
      case False
      with 1(2) have "loop P (after_draws w 1) = Some y"
        by (simp add: randomBytes_32)
      then obtain k where k: "\<forall>j < k. \<not> isValidPrivate P (draw (after_draws w 1) j)"
        "isValidPrivate P (draw (after_draws w 1) k)"
        "y = (draw (after_draws w 1) k, after_draws (after_draws w 1) (Suc k))"
        using 1(1) by fastforce
      have "\<forall>j < Suc k. \<not> isValidPrivate P (draw w j)"
      proof (intro allI impI)
        fix j assume "j < Suc k"
        then show "\<not> isValidPrivate P (draw w j)"
          using False k(1) by (cases j) (auto simp add: draw_after_draws)
      qed
      moreover have "isValidPrivate P (draw w (Suc k))"
        using k(2) by (simp add: draw_after_draws)
      moreover have "y = (draw w (Suc k), after_draws w (Suc (Suc k)))"
        using k(3) by (simp add: draw_after_draws after_draws_after_draws)
      ultimately show ?thesis by blast
    qed
  qed
  then show ?thesis by simp
qed

lemma GenKey_loop_Some_iff:
  "(\<exists>y. GenKey_loop P w = Some y) \<longleftrightarrow> (\<exists>k. isValidPrivate P (draw w k))"
proof
  assume "\<exists>y. GenKey_loop P w = Some y"
  then show "\<exists>k. isValidPrivate P (draw w k)" using GenKey_loop_returns_valid by blast
next
  assume ex: "\<exists>k. isValidPrivate P (draw w k)"
  define k where "k = (LEAST k. isValidPrivate P (draw w k))"
  have "isValidPrivate P (draw w k)"
    unfolding k_def using ex by (rule LeastI_ex)
  moreover have "\<forall>j<k. \<not> isValidPrivate P (draw w j)"
    unfolding k_def using not_less_Least by blast
  ultimately show "\<exists>y. GenKey_loop P w = Some y"
    using GenKey_loop_first_valid by blast
qed

lemma GenKey_Some:
  "GenKey P w = Some (kp, w') \<longleftrightarrow>
     GenKey_loop P w = Some (prvkey kp, w') \<and> pubkey kp = privateToPublic P (prvkey kp) \<and>
     addr kp = pubToAddress P (privateToPublic P (prvkey kp))"
  by (cases kp) (auto simp add: GenKey_def Let_def split: option.splits)

lemma GenKey_None: "GenKey P w = None \<longleftrightarrow> GenKey_loop P w = None"
  by (auto simp add: GenKey_def Let_def split: option.splits)

lemma map_const_upt: "(\<forall>i. a \<le> i \<and> i < b \<longrightarrow> f i = c) \<Longrightarrow> map f [a ..< b] = replicate (b - a) c"
  by (rule nth_equalityI) simp_all

lemma draw_late_before: "j < k \<Longrightarrow> draw (demo_world_late k) j = replicate 32 0"
proof -
  assume "j < k"
  then have "32 * j + 32 \<le> 32 * k" by simp
  then have "map (\<lambda>i. if i < 32 * k then 0 else (1 :: byte)) [32 * j ..< 32 * j + 32] =
               replicate (32 * j + 32 - 32 * j) 0"
    by (intro map_const_upt) auto
  then show ?thesis by (simp add: draw_def demo_world_late_def)
qed

lemma draw_late_at: "draw (demo_world_late k) k = replicate 32 1"
proof -
  have "map (\<lambda>i. if i < 32 * k then 0 else (1 :: byte)) [32 * k ..< 32 * k + 32] =
               replicate (32 * k + 32 - 32 * k) 1"
    by (intro map_const_upt) auto
  then show ?thesis by (simp add: draw_def demo_world_late_def)
qed

lemma draw_stuck: "draw demo_world_stuck k = replicate 32 0"
proof -
  have "map (\<lambda>i. (0 :: byte)) [32 * k ..< 32 * k + 32] = replicate (32 * k + 32 - 32 * k) 0"
    by (intro map_const_upt) auto
  then show ?thesis by (simp add: draw_def demo_world_stuck_def)
qed

lemma be_int_zeros: "be_int (replicate k 0) = 0"
proof -
  have "foldl (\<lambda>a b. 256 * a + uint b) 0 (replicate k (0 :: byte)) = 0"
    by (induction k) simp_all
  then show ?thesis by (simp add: be_int_def)
qed

lemma zeros_invalid: "\<not> secp256k1_privateKeyVerify (replicate 32 0)"
  by (simp add: secp256k1_privateKeyVerify_def be_int_zeros)

lemma be_int_ones:
  "be_int (replicate 32 1) = 0x0101010101010101010101010101010101010101010101010101010101010101"
  unfolding be_int_def by code_simp

lemma ones_valid: "secp256k1_privateKeyVerify (replicate 32 1)"
  by (simp add: secp256k1_privateKeyVerify_def be_int_ones secp256k1_n_def)

lemma demo_isValidPrivate: "isValidPrivate demo = secp256k1_privateKeyVerify"
  by (simp add: demo_def)

subsection \<open>Tampered records\<close>

lemma length_flip_bit: "length (flip_bit i buf) = length buf"
  by (simp add: flip_bit_def)

lemma byte_flip_neq: "k < 8 \<Longrightarrow> (b :: byte) XOR push_bit k 1 \<noteq> b"
proof
  assume k: "k < 8" and eq: "b XOR push_bit k 1 = b"
  have "bit (b XOR push_bit k 1) k \<noteq> bit b k"
    using k by (simp add: bit_xor_iff bit_push_bit_iff bit_exp_iff)
  with eq show False by simp
qed

lemma flip_bit_neq: "i < 8 * length buf \<Longrightarrow> flip_bit i buf \<noteq> buf"
proof -
  assume i: "i < 8 * length buf"
  then have j: "i div 8 < length buf" by auto
  have "flip_bit i buf ! (i div 8) = (buf ! (i div 8)) XOR push_bit (i mod 8) 1"
    using j by (simp add: flip_bit_def)
  also have "\<dots> \<noteq> buf ! (i div 8)"
    by (rule byte_flip_neq) simp
  finally show ?thesis by auto
qed

lemma flip_hex_toString_hex: "flip_hex i (toString_hex buf) = toString_hex (flip_bit i buf)"
  by (simp add: flip_hex_def Buffer_hex_toString_hex)

lemma tamper_encrypted:
  "key_version (tamper_mac i r) = key_version r"
  "key_version (tamper_ciphertext i r) = key_version r"
  "key_version (tamper_salt i r) = key_version r"
  "key_version (tamper_iv i r) = key_version r"
  by (simp_all add: tamper_mac_def tamper_ciphertext_def tamper_salt_def tamper_iv_def)

lemma DecryptKey_tamper_mac:
  assumes d: "scrypt_hashSync P passwd 262144 8 1 32 salt = Some d"
  shows "fst (DecryptKey P (JsonText (tamper_mac i (encrypted P key salt iv d))) passwd w) =
           decrypted P (toString_hex (flip_bit i (sha3 P (drop 16 (take 32 d) @
                xor_keystream P (take 16 d) iv 0 (prvkey key)))))
             d iv (xor_keystream P (take 16 d) iv 0 (prvkey key))"
proof -
  let ?r = "tamper_mac i (encrypted P key salt iv d)"
  have v: "key_version ?r = 3" by (simp add: tamper_mac_def encrypted_def)
  have "fst (DecryptKeyV3 P (as_parsed_crypto (key_crypto ?r)) passwd w) =
          decrypted P (crypto_mac (key_crypto ?r)) d iv (xor_keystream P (take 16 d) iv 0 (prvkey key))"
    by (rule DecryptKeyV3_result [where salt = salt])
      (simp_all add: tamper_mac_def encrypted_def Buffer_hex_toString_hex d)
  then show ?thesis
    using v by (simp add: DecryptKey_JsonText tamper_mac_def encrypted_def flip_hex_toString_hex)
qed

lemma DecryptKey_tamper_ciphertext:
  assumes d: "scrypt_hashSync P passwd 262144 8 1 32 salt = Some d"
  shows "fst (DecryptKey P (JsonText (tamper_ciphertext i (encrypted P key salt iv d))) passwd w) =
           decrypted P (toString_hex (sha3 P (drop 16 (take 32 d) @
                xor_keystream P (take 16 d) iv 0 (prvkey key))))
             d iv (flip_bit i (xor_keystream P (take 16 d) iv 0 (prvkey key)))"
proof -
  let ?r = "tamper_ciphertext i (encrypted P key salt iv d)"
  have v: "key_version ?r = 3" by (simp add: tamper_ciphertext_def encrypted_def)
  have "fst (DecryptKeyV3 P (as_parsed_crypto (key_crypto ?r)) passwd w) =
          decrypted P (crypto_mac (key_crypto ?r)) d iv
            (flip_bit i (xor_keystream P (take 16 d) iv 0 (prvkey key)))"
    by (rule DecryptKeyV3_result [where salt = salt])
      (simp_all add: tamper_ciphertext_def encrypted_def Buffer_hex_toString_hex d flip_hex_toString_hex)
  then show ?thesis
    using v by (simp add: DecryptKey_JsonText tamper_ciphertext_def encrypted_def)
qed

lemma DecryptKey_tamper_salt:
  assumes d': "scrypt_hashSync P passwd 262144 8 1 32 (flip_bit i salt) = Some d'"
  shows "fst (DecryptKey P (JsonText (tamper_salt i (encrypted P key salt iv d))) passwd w) =
           decrypted P (toString_hex (sha3 P (drop 16 (take 32 d) @
                xor_keystream P (take 16 d) iv 0 (prvkey key))))
             d' iv (xor_keystream P (take 16 d) iv 0 (prvkey key))"
proof -
  let ?r = "tamper_salt i (encrypted P key salt iv d)"
  have v: "key_version ?r = 3" by (simp add: tamper_salt_def encrypted_def)
  have "fst (DecryptKeyV3 P (as_parsed_crypto (key_crypto ?r)) passwd w) =
          decrypted P (crypto_mac (key_crypto ?r)) d' iv (xor_keystream P (take 16 d) iv 0 (prvkey key))"
    by (rule DecryptKeyV3_result [where salt = "flip_bit i salt"])
      (simp_all add: tamper_salt_def encrypted_def Buffer_hex_toString_hex d' flip_hex_toString_hex)
  then show ?thesis
    using v by (simp add: DecryptKey_JsonText tamper_salt_def encrypted_def)
qed

lemma DecryptKey_tamper_iv:
  assumes d: "scrypt_hashSync P passwd 262144 8 1 32 salt = Some d"
  shows "fst (DecryptKey P (JsonText (tamper_iv i (encrypted P key salt iv d))) passwd w) =
           decrypted P (toString_hex (sha3 P (drop 16 (take 32 d) @
                xor_keystream P (take 16 d) iv 0 (prvkey key))))
             d (flip_bit i iv) (xor_keystream P (take 16 d) iv 0 (prvkey key))"
proof -
  let ?r = "tamper_iv i (encrypted P key salt iv d)"
  have v: "key_version ?r = 3" by (simp add: tamper_iv_def encrypted_def)
  have "fst (DecryptKeyV3 P (as_parsed_crypto (key_crypto ?r)) passwd w) =
          decrypted P (crypto_mac (key_crypto ?r)) d (flip_bit i iv)
            (xor_keystream P (take 16 d) iv 0 (prvkey key))"
    by (rule DecryptKeyV3_result [where salt = salt])
      (simp_all add: tamper_iv_def encrypted_def Buffer_hex_toString_hex d flip_hex_toString_hex)
  then show ?thesis
    using v by (simp add: DecryptKey_JsonText tamper_iv_def encrypted_def)
qed

text \<open>The flip of a bit of the iv is never answered with the mac error, whatever the
  library functions are.\<close>

lemma tamper_iv_undetected:
  assumes d: "scrypt_hashSync P passwd 262144 8 1 32 salt = Some d"
    and len: "16 \<le> length d" and iv: "length iv = 16"
  shows "fst (DecryptKey P (JsonText (tamper_iv i (encrypted P key salt iv d))) passwd w) =
           Inr (toString_hex (xor_keystream P (take 16 d) (flip_bit i iv) 0
                  (xor_keystream P (take 16 d) iv 0 (prvkey key))))"
  using len iv by (simp add: DecryptKey_tamper_iv [OF d] decrypted_def slice_def length_flip_bit)

subsection \<open>The concrete instance, tampered with\<close>

lemma demo_flip_iv: "flip_bit 0 demo_iv = demo_iv_flipped"
  by (simp add: flip_bit_def demo_iv_def demo_iv_flipped_def)

lemma demo_flip_iv_plaintext:
  "xor_keystream demo (take 16 demo_dpasswd) demo_iv_flipped 0 demo_ciphertext = demo_plaintext_flipped_iv"
  unfolding demo_def demo_keystream_def xor_keystream_def demo_dpasswd_def demo_iv_flipped_def
    demo_ciphertext_def demo_plaintext_flipped_iv_def
  by code_simp

lemma demo_flip_iv_hex:
  "toString_hex demo_iv_flipped = ''aad0f51a3f6489aed3f81d42678cb1d6''"
  "toString_hex demo_plaintext_flipped_iv = ''3c050e070009020b040d160f08310a130c151e171019121b141d261f18011a23''"
  by (simp_all add: demo_iv_flipped_def demo_plaintext_flipped_iv_def hex_eval)

lemma demo_tamper_iv:
  "fst (DecryptKey demo (JsonText (tamper_iv 0 demo_record)) demo_passwd w) =
     Inr ''3c050e070009020b040d160f08310a130c151e171019121b141d261f18011a23''"
proof -
  have "fst (DecryptKey demo (JsonText (tamper_iv 0 (encrypted demo demo_key demo_salt demo_iv demo_dpasswd)))
          demo_passwd w) =
        Inr (toString_hex (xor_keystream demo (take 16 demo_dpasswd) (flip_bit 0 demo_iv) 0
               (xor_keystream demo (take 16 demo_dpasswd) demo_iv 0 (prvkey demo_key))))"
    by (rule tamper_iv_undetected) (simp_all add: demo_scrypt_value demo_dpasswd_def demo_iv_def)
  then show ?thesis
    by (simp only: demo_record_encrypted demo_ciphertext_value demo_flip_iv demo_flip_iv_plaintext
        demo_flip_iv_hex)
qed

lemma demo_tamper_iv_field:
  "cipherparams_iv (crypto_cipherparams (key_crypto (tamper_iv 0 demo_record))) =
     ''aad0f51a3f6489aed3f81d42678cb1d6''"
proof -
  have "cipherparams_iv (crypto_cipherparams (key_crypto
          (tamper_iv 0 (encrypted demo demo_key demo_salt demo_iv demo_dpasswd)))) =
        toString_hex (flip_bit 0 demo_iv)"
    by (simp add: tamper_iv_def encrypted_def flip_hex_toString_hex)
  then show ?thesis
    by (simp only: demo_record_encrypted demo_flip_iv demo_flip_iv_hex)
qed

lemma demo_flip_ciphertext_mac:
  "sha3 demo (mac_subkey demo_dpasswd @ flip_bit 0 demo_ciphertext) \<noteq> demo_mac"
  unfolding demo_subkeys demo_def demo_sha3_def flip_bit_def demo_ciphertext_def demo_mac_def
  by code_simp

lemma demo_flip_salt_scrypt:
  "scrypt_hashSync demo demo_passwd 262144 8 1 32 (flip_bit 0 demo_salt) = Some demo_dpasswd_flipped_salt"
  unfolding demo_def demo_scrypt_def demo_passwd_def flip_bit_def demo_salt_def demo_dpasswd_flipped_salt_def
  by code_simp

lemma demo_flip_salt_mac:
  "sha3 demo (slice 16 32 demo_dpasswd_flipped_salt @ demo_ciphertext) \<noteq> demo_mac"
  unfolding demo_def demo_sha3_def slice_def demo_dpasswd_flipped_salt_def demo_ciphertext_def demo_mac_def
  by code_simp

lemma demo_kdf_any_salt:
  "scrypt_hashSync demo passwd 262144 8 1 32 salt =
     Some (map (\<lambda>i. of_nat (7 * i + length passwd) + sum_list salt) [0 ..< 32])"
  by (simp add: demo_def demo_scrypt_def del: upt_rec_numeral upt.simps)

lemma demo_world2_first_bytes:
  "fst (randomBytes 32 demo_world2) ! 0 = 5" "fst (randomBytes 32 demo_world) ! 0 = 11"
  "fst (randomBytes 16 (snd (randomBytes 32 demo_world2))) ! 0 = 37"
  "fst (randomBytes 16 (snd (randomBytes 32 demo_world))) ! 0 = 171"
  by (simp_all add: randomBytes_def demo_world2_def demo_world_def logged_def nth_map_upt
      del: upt_rec_numeral upt.simps)

subsection \<open>Records with values of other kinds\<close>




















section \<open>The claims\<close>

text \<open>
  C1. For every key pair and every passphrase for which the key derivation delivers its
  32 bytes, \<^verbatim>\<open>EncryptKey\<close> returns a record, and \<^verbatim>\<open>DecryptKey\<close> applied to the serialized
  record with the same passphrase returns the private key: as the hex text of its bytes,
  which \<^verbatim>\<open>new Buffer(_, 'hex')\<close> turns back into the bytes of the private key.
\<close>

theorem encrypt_decrypt_roundtrip:
  assumes "kdf_delivers P passwd (fst (randomBytes 32 w))"
  shows "\<exists>r. fst (EncryptKey P key passwd w) = Inr r \<and>
             fst (DecryptKey P (JSON_stringify r) passwd w') = Inr (toString_hex (prvkey key)) \<and>
             Buffer_hex (toString_hex (prvkey key)) = Some (prvkey key)"
proof -
  from assms obtain d
    where d: "scrypt_hashSync P passwd 262144 8 1 32 (fst (randomBytes 32 w)) = Some d"
      and len: "length d = 32"
    by (auto simp add: kdf_delivers_iff)
  let ?iv = "map (entropy w) [consumed w + 32 ..< consumed w + 48]"
  let ?r = "encrypted P key (fst (randomBytes 32 w)) ?iv d"
  have "fst (EncryptKey P key passwd w) = Inr ?r"
    using d len by (simp add: EncryptKey_result)
  moreover have "fst (DecryptKey P (JSON_stringify ?r) passwd w') = Inr (toString_hex (prvkey key))"
    unfolding JSON_stringify_def using d len by (simp add: DecryptKey_encrypted)
  ultimately show ?thesis
    by (simp add: Buffer_hex_toString_hex)
qed

theorem encrypt_decrypt_roundtrip_witness:
  "kdf_delivers demo demo_passwd (fst (randomBytes 32 demo_world)) \<and>
   fst (EncryptKey demo demo_key demo_passwd demo_world) = Inr demo_record \<and>
   fst (DecryptKey demo (JSON_stringify demo_record) demo_passwd demo_world) =
     Inr ''0102030405060708090a0b0c0d0e0f101112131415161718191a1b1c1d1e1f20'' \<and>
   Buffer_hex ''0102030405060708090a0b0c0d0e0f101112131415161718191a1b1c1d1e1f20'' =
     Some (prvkey demo_key)"
  using encrypt_decrypt_roundtrip [OF demo_kdf_delivers, of demo_key demo_world]
  by (auto simp add: demo_kdf_delivers demo_EncryptKey demo_hex_values)

text \<open>
  C2, as amended. Take a record \<^verbatim>\<open>EncryptKey\<close> returned and the passphrase it was made
  with, and flip one bit of the bytes one of its hex fields encodes.
  \<^item> A bit of the mac: \<^verbatim>\<open>DecryptKey\<close> always throws the mac error.
  \<^item> A bit of the ciphertext: it throws the mac error whenever the hash of the mac sub-key
    and the changed ciphertext is not the hash stored.
  \<^item> A bit of the salt: it throws the mac error whenever the key derivation returns for
    the changed salt and the hash taken with the new derived key is not the hash stored.
  \<^item> A bit of the iv: it is not detected. The mac does not cover the iv; \<^verbatim>\<open>DecryptKey\<close>
    returns the ciphertext decrypted under the changed iv.
\<close>

theorem tamper_detection:
  assumes "scrypt_hashSync P passwd ScryptN ScryptR ScryptP ScryptDKLen (fst (randomBytes 32 w)) = Some d"
    and "length d = 32"
  shows "\<exists>r salt iv ct mac.
     fst (EncryptKey P key passwd w) = Inr r \<and>
     salt = fst (randomBytes 32 w) \<and>
     iv = fst (randomBytes 16 (snd (randomBytes 32 w))) \<and>
     ct = xor_keystream P (encryption_subkey d) iv 0 (prvkey key) \<and>
     mac = sha3 P (mac_subkey d @ ct) \<and>
     (\<forall>i < 8 * length mac.
        fst (DecryptKey P (JSON_stringify (tamper_mac i r)) passwd w') =
          Inl (Throw ''could not decrypt key with given passphrase'')) \<and>
     (\<forall>i < 8 * length ct.
        sha3 P (mac_subkey d @ flip_bit i ct) \<noteq> mac \<longrightarrow>
        fst (DecryptKey P (JSON_stringify (tamper_ciphertext i r)) passwd w') =
          Inl (Throw ''could not decrypt key with given passphrase'')) \<and>
     (\<forall>i < 8 * length salt. \<forall>d'.
        scrypt_hashSync P passwd ScryptN ScryptR ScryptP ScryptDKLen (flip_bit i salt) = Some d' \<and>
        sha3 P (slice 16 32 d' @ ct) \<noteq> mac \<longrightarrow>
        fst (DecryptKey P (JSON_stringify (tamper_salt i r)) passwd w') =
          Inl (Throw ''could not decrypt key with given passphrase'')) \<and>
     (\<forall>i < 8 * length iv.
        fst (DecryptKey P (JSON_stringify (tamper_iv i r)) passwd w') =
          Inr (toString_hex (xor_keystream P (encryption_subkey d) (flip_bit i iv) 0 ct)))"
proof -
  from assms have d: "scrypt_hashSync P passwd 262144 8 1 32 (fst (randomBytes 32 w)) = Some d"
    and len: "length d = 32"
    by (simp_all add: ScryptN_value ScryptR_def ScryptP_def ScryptDKLen_def)
  let ?salt = "fst (randomBytes 32 w)"
  let ?iv = "fst (randomBytes 16 (snd (randomBytes 32 w)))"
  let ?ct = "xor_keystream P (encryption_subkey d) ?iv 0 (prvkey key)"
  let ?mac = "sha3 P (mac_subkey d @ ?ct)"
  let ?r = "encrypted P key ?salt ?iv d"
  let ?auth = "Inl (Throw ''could not decrypt key with given passphrase'') :: exn + string"
  have t16: "take 16 d = encryption_subkey d"
    using slice_0_16 [OF len] by (simp add: slice_def)
  have d16: "drop 16 (take 32 d) = mac_subkey d"
    using slice_16_32 [OF len] by (simp add: slice_def)
  have s16: "slice 16 32 d = mac_subkey d" by (rule slice_16_32 [OF len])
  have ivlen: "length ?iv = 16" by (rule length_randomBytes)
  have enc: "fst (EncryptKey P key passwd w) = Inr ?r"
    using d len by (simp add: EncryptKey_result randomBytes_16_after_32)
  have mac: "\<forall>i < 8 * length ?mac. fst (DecryptKey P (JSON_stringify (tamper_mac i ?r)) passwd w') = ?auth"
  proof (intro allI impI)
    fix i assume "i < 8 * length ?mac"
    then have "flip_bit i ?mac \<noteq> ?mac" by (rule flip_bit_neq)
    then show "fst (DecryptKey P (JSON_stringify (tamper_mac i ?r)) passwd w') = ?auth"
      unfolding JSON_stringify_def
      by (simp add: DecryptKey_tamper_mac [OF d] decrypted_def t16 d16 s16 toString_hex_inject)
  qed
  have ct: "\<forall>i < 8 * length ?ct. sha3 P (mac_subkey d @ flip_bit i ?ct) \<noteq> ?mac \<longrightarrow>
              fst (DecryptKey P (JSON_stringify (tamper_ciphertext i ?r)) passwd w') = ?auth"
    unfolding JSON_stringify_def
    by (simp add: DecryptKey_tamper_ciphertext [OF d] decrypted_def t16 d16 s16 toString_hex_inject)
  have salt: "\<forall>i < 8 * length ?salt. \<forall>d'.
        scrypt_hashSync P passwd ScryptN ScryptR ScryptP ScryptDKLen (flip_bit i ?salt) = Some d' \<and>
        sha3 P (slice 16 32 d' @ ?ct) \<noteq> ?mac \<longrightarrow>
        fst (DecryptKey P (JSON_stringify (tamper_salt i ?r)) passwd w') = ?auth"
  proof (intro allI impI)
    fix i d'
    assume "scrypt_hashSync P passwd ScryptN ScryptR ScryptP ScryptDKLen (flip_bit i ?salt) = Some d' \<and>
        sha3 P (slice 16 32 d' @ ?ct) \<noteq> ?mac"
    then have d': "scrypt_hashSync P passwd 262144 8 1 32 (flip_bit i ?salt) = Some d'"
      and ne: "sha3 P (slice 16 32 d' @ ?ct) \<noteq> ?mac"
      by (simp_all add: ScryptN_value ScryptR_def ScryptP_def ScryptDKLen_def)
    show "fst (DecryptKey P (JSON_stringify (tamper_salt i ?r)) passwd w') = ?auth"
      unfolding JSON_stringify_def using ne
      by (simp add: DecryptKey_tamper_salt [OF d'] decrypted_def t16 d16 toString_hex_inject)
  qed
  have iv: "\<forall>i < 8 * length ?iv.
        fst (DecryptKey P (JSON_stringify (tamper_iv i ?r)) passwd w') =
          Inr (toString_hex (xor_keystream P (encryption_subkey d) (flip_bit i ?iv) 0 ?ct))"
    unfolding JSON_stringify_def using len ivlen
    by (simp add: tamper_iv_undetected [OF d] t16)
  from enc mac ct salt iv show ?thesis by blast
qed

theorem tamper_detection_witness:
  "scrypt_hashSync demo demo_passwd ScryptN ScryptR ScryptP ScryptDKLen (fst (randomBytes 32 demo_world)) =
     Some demo_dpasswd \<and>
   length demo_dpasswd = 32 \<and>
   fst (EncryptKey demo demo_key demo_passwd demo_world) = Inr demo_record \<and>
   fst (DecryptKey demo (JSON_stringify (tamper_mac 0 demo_record)) demo_passwd demo_world) =
     Inl (Throw ''could not decrypt key with given passphrase'') \<and>
   sha3 demo (mac_subkey demo_dpasswd @ flip_bit 0 demo_ciphertext) \<noteq> demo_mac \<and>
   fst (DecryptKey demo (JSON_stringify (tamper_ciphertext 0 demo_record)) demo_passwd demo_world) =
     Inl (Throw ''could not decrypt key with given passphrase'') \<and>
   scrypt_hashSync demo demo_passwd ScryptN ScryptR ScryptP ScryptDKLen (flip_bit 0 demo_salt) =
     Some demo_dpasswd_flipped_salt \<and>
   sha3 demo (slice 16 32 demo_dpasswd_flipped_salt @ demo_ciphertext) \<noteq> demo_mac \<and>
   fst (DecryptKey demo (JSON_stringify (tamper_salt 0 demo_record)) demo_passwd demo_world) =
     Inl (Throw ''could not decrypt key with given passphrase'') \<and>
   fst (DecryptKey demo (JSON_stringify (tamper_iv 0 demo_record)) demo_passwd demo_world) =
     Inr ''3c050e070009020b040d160f08310a130c151e171019121b141d261f18011a23''"
proof -
  let ?auth = "Inl (Throw ''could not decrypt key with given passphrase'') :: exn + string"
  have h1: "scrypt_hashSync demo demo_passwd ScryptN ScryptR ScryptP ScryptDKLen
              (fst (randomBytes 32 demo_world)) = Some demo_dpasswd"
    by (simp add: ScryptN_value ScryptR_def ScryptP_def ScryptDKLen_def demo_randomBytes_32
        demo_scrypt_value)
  have len: "length demo_dpasswd = 32" by (simp add: demo_dpasswd_def)
  have ivv: "fst (randomBytes 16 (snd (randomBytes 32 demo_world))) = demo_iv"
    by (simp only: randomBytes_16_after_32 demo_randomBytes_16)
  have h3: "scrypt_hashSync demo demo_passwd ScryptN ScryptR ScryptP ScryptDKLen (flip_bit 0 demo_salt) =
     Some demo_dpasswd_flipped_salt"
    by (simp add: ScryptN_value ScryptR_def ScryptP_def ScryptDKLen_def demo_flip_salt_scrypt)
  from tamper_detection [OF h1 len, of demo_key demo_world] obtain r ct mac where
    r: "fst (EncryptKey demo demo_key demo_passwd demo_world) = Inr r"
    and ct: "ct = xor_keystream demo (encryption_subkey demo_dpasswd) demo_iv 0 (prvkey demo_key)"
    and mac: "mac = sha3 demo (mac_subkey demo_dpasswd @ ct)"
    and tm: "\<forall>i < 8 * length mac.
        fst (DecryptKey demo (JSON_stringify (tamper_mac i r)) demo_passwd demo_world) = ?auth"
    and tc: "\<forall>i < 8 * length ct.
        sha3 demo (mac_subkey demo_dpasswd @ flip_bit i ct) \<noteq> mac \<longrightarrow>
        fst (DecryptKey demo (JSON_stringify (tamper_ciphertext i r)) demo_passwd demo_world) = ?auth"
    and ts: "\<forall>i < 8 * length (fst (randomBytes 32 demo_world)). \<forall>d'.
        scrypt_hashSync demo demo_passwd ScryptN ScryptR ScryptP ScryptDKLen
          (flip_bit i (fst (randomBytes 32 demo_world))) = Some d' \<and>
        sha3 demo (slice 16 32 d' @ ct) \<noteq> mac \<longrightarrow>
        fst (DecryptKey demo (JSON_stringify (tamper_salt i r)) demo_passwd demo_world) = ?auth"
    and ti: "\<forall>i < 8 * length demo_iv.
        fst (DecryptKey demo (JSON_stringify (tamper_iv i r)) demo_passwd demo_world) =
          Inr (toString_hex (xor_keystream demo (encryption_subkey demo_dpasswd) (flip_bit i demo_iv) 0 ct))"
    unfolding ivv by blast
  have rv: "r = demo_record" using r by (simp add: demo_EncryptKey)
  have t16: "encryption_subkey demo_dpasswd = take 16 demo_dpasswd"
    using slice_0_16 [OF len] by (simp add: slice_def)
  have d16: "mac_subkey demo_dpasswd = drop 16 (take 32 demo_dpasswd)"
    using slice_16_32 [OF len] by (simp add: slice_def)
  have ctv: "ct = demo_ciphertext" by (simp only: ct t16 demo_ciphertext_value)
  have macv: "mac = demo_mac" by (simp only: mac ctv d16 demo_mac_value)
  have a: "fst (DecryptKey demo (JSON_stringify (tamper_mac 0 demo_record)) demo_passwd demo_world) = ?auth"
    using tm by (simp add: rv macv demo_mac_def)
  have b: "fst (DecryptKey demo (JSON_stringify (tamper_ciphertext 0 demo_record)) demo_passwd demo_world) = ?auth"
  proof -
    have "0 < 8 * length ct" by (simp add: ctv demo_ciphertext_def)
    moreover have "sha3 demo (mac_subkey demo_dpasswd @ flip_bit 0 ct) \<noteq> mac"
      by (simp only: ctv macv demo_flip_ciphertext_mac not_False_eq_True)
    ultimately show ?thesis using tc rv by blast
  qed
  have c: "fst (DecryptKey demo (JSON_stringify (tamper_salt 0 demo_record)) demo_passwd demo_world) = ?auth"
  proof -
    have "0 < 8 * length (fst (randomBytes 32 demo_world))" by (simp add: length_randomBytes)
    moreover have "scrypt_hashSync demo demo_passwd ScryptN ScryptR ScryptP ScryptDKLen
          (flip_bit 0 (fst (randomBytes 32 demo_world))) = Some demo_dpasswd_flipped_salt"
      by (simp only: demo_randomBytes_32 h3)
    moreover have "sha3 demo (slice 16 32 demo_dpasswd_flipped_salt @ ct) \<noteq> mac"
      by (simp only: ctv macv demo_flip_salt_mac not_False_eq_True)
    ultimately show ?thesis using ts rv by blast
  qed
  have e: "fst (DecryptKey demo (JSON_stringify (tamper_iv 0 demo_record)) demo_passwd demo_world) =
     Inr ''3c050e070009020b040d160f08310a130c151e171019121b141d261f18011a23''"
  proof -
    have "0 < 8 * length demo_iv" by (simp add: demo_iv_def)
    with ti have "fst (DecryptKey demo (JSON_stringify (tamper_iv 0 r)) demo_passwd demo_world) =
          Inr (toString_hex (xor_keystream demo (encryption_subkey demo_dpasswd) (flip_bit 0 demo_iv) 0 ct))"
      by blast
    then show ?thesis
      by (simp only: rv ctv t16 demo_flip_iv demo_flip_iv_plaintext demo_flip_iv_hex)
  qed
  show ?thesis
    using h1 len demo_EncryptKey a demo_flip_ciphertext_mac b h3 demo_flip_salt_mac c e
    by blast
qed

text \<open>
  C2 as stated fails for the iv. In the concrete instance, the record of \<open>demo_key\<close> with
  the lowest bit of its iv flipped (\<^verbatim>\<open>ab...\<close> becomes \<^verbatim>\<open>aa...\<close>) is accepted with the
  right passphrase: \<^verbatim>\<open>DecryptKey\<close> returns a hex text, which is not the private key, and
  does not throw. By \<open>tamper_iv_undetected\<close> this is so for every choice of the library
  functions.
\<close>

theorem tampered_iv_accepted:
  "fst (EncryptKey demo demo_key demo_passwd demo_world) = Inr demo_record \<and>
   cipherparams_iv (crypto_cipherparams (key_crypto demo_record)) = ''abd0f51a3f6489aed3f81d42678cb1d6'' \<and>
   cipherparams_iv (crypto_cipherparams (key_crypto (tamper_iv 0 demo_record))) =
     ''aad0f51a3f6489aed3f81d42678cb1d6'' \<and>
   fst (DecryptKey demo (JSON_stringify demo_record) demo_passwd demo_world) =
     Inr ''0102030405060708090a0b0c0d0e0f101112131415161718191a1b1c1d1e1f20'' \<and>
   fst (DecryptKey demo (JSON_stringify (tamper_iv 0 demo_record)) demo_passwd demo_world) =
     Inr ''3c050e070009020b040d160f08310a130c151e171019121b141d261f18011a23'' \<and>
   fst (DecryptKey demo (JSON_stringify (tamper_iv 0 demo_record)) demo_passwd demo_world) \<noteq>
     Inl (Throw ''could not decrypt key with given passphrase'')"
proof -
  have "cipherparams_iv (crypto_cipherparams (key_crypto demo_record)) = ''abd0f51a3f6489aed3f81d42678cb1d6''"
    by (simp add: demo_record_def)
  then show ?thesis
    by (simp add: demo_EncryptKey demo_tamper_iv_field JSON_stringify_def demo_DecryptKey demo_tamper_iv)
qed







text \<open>
  C5. Every record \<^verbatim>\<open>EncryptKey\<close> returns has version 3, cipher \<^verbatim>\<open>aes-128-ctr\<close>, kdf
  \<^verbatim>\<open>scrypt\<close>, and kdfparams with dklen 32, n \<open>2 ^ 18 = 262144\<close>, r 8 and p 1; its salt is
  the hex text of the 32 bytes drawn first, its iv the hex text of the 16 bytes drawn
  next, its ciphertext the hex text of as many bytes as the private key has, its mac a
  hex text, and its address the hex text of the key pair's address. And a record is
  returned whenever the key derivation delivers.
\<close>

theorem encrypt_record_shape:
  "(\<forall>r. fst (EncryptKey P key passwd w) = Inr r \<longrightarrow>
      key_version r = 3 \<and>
      crypto_cipher (key_crypto r) = ''aes-128-ctr'' \<and>
      crypto_kdf (key_crypto r) = ''scrypt'' \<and>
      kdfparams_dklen (crypto_kdfparams (key_crypto r)) = 32 \<and>
      kdfparams_n (crypto_kdfparams (key_crypto r)) = 2 ^ 18 \<and>
      kdfparams_n (crypto_kdfparams (key_crypto r)) = 262144 \<and>
      kdfparams_r (crypto_kdfparams (key_crypto r)) = 8 \<and>
      kdfparams_p (crypto_kdfparams (key_crypto r)) = 1 \<and>
      kdfparams_salt (crypto_kdfparams (key_crypto r)) = toString_hex (fst (randomBytes 32 w)) \<and>
      length (fst (randomBytes 32 w)) = 32 \<and>
      cipherparams_iv (crypto_cipherparams (key_crypto r)) =
        toString_hex (fst (randomBytes 16 (snd (randomBytes 32 w)))) \<and>
      length (fst (randomBytes 16 (snd (randomBytes 32 w)))) = 16 \<and>
      (\<exists>ct. crypto_ciphertext (key_crypto r) = toString_hex ct \<and> length ct = length (prvkey key)) \<and>
      (\<exists>mac. crypto_mac (key_crypto r) = toString_hex mac) \<and>
      key_address r = toString_hex (addr key)) \<and>
   (kdf_delivers P passwd (fst (randomBytes 32 w)) \<longrightarrow> (\<exists>r. fst (EncryptKey P key passwd w) = Inr r))"
proof (intro conjI allI impI)
  fix r
  assume "fst (EncryptKey P key passwd w) = Inr r"
  then obtain d where r: "r = encrypted P key (fst (randomBytes 32 w))
      (fst (randomBytes 16 (snd (randomBytes 32 w)))) d"
    using EncryptKey_Inr by blast
  show "key_version r = 3" by (simp add: r encrypted_def)
  show "crypto_cipher (key_crypto r) = ''aes-128-ctr''" by (simp add: r encrypted_def)
  show "crypto_kdf (key_crypto r) = ''scrypt''" by (simp add: r encrypted_def)
  show "kdfparams_dklen (crypto_kdfparams (key_crypto r)) = 32" by (simp add: r encrypted_def)
  show "kdfparams_n (crypto_kdfparams (key_crypto r)) = 2 ^ 18" by (simp add: r encrypted_def)
  show "kdfparams_n (crypto_kdfparams (key_crypto r)) = 262144" by (simp add: r encrypted_def)
  show "kdfparams_r (crypto_kdfparams (key_crypto r)) = 8" by (simp add: r encrypted_def)
  show "kdfparams_p (crypto_kdfparams (key_crypto r)) = 1" by (simp add: r encrypted_def)
  show "kdfparams_salt (crypto_kdfparams (key_crypto r)) = toString_hex (fst (randomBytes 32 w))"
    by (simp add: r encrypted_def)
  show "length (fst (randomBytes 32 w)) = 32" by (rule length_randomBytes)
  show "cipherparams_iv (crypto_cipherparams (key_crypto r)) =
        toString_hex (fst (randomBytes 16 (snd (randomBytes 32 w))))"
    by (simp add: r encrypted_def)
  show "length (fst (randomBytes 16 (snd (randomBytes 32 w)))) = 16" by (rule length_randomBytes)
  show "\<exists>ct. crypto_ciphertext (key_crypto r) = toString_hex ct \<and> length ct = length (prvkey key)"
    by (simp add: r encrypted_def toString_hex_inject length_xor_keystream)
  show "\<exists>mac. crypto_mac (key_crypto r) = toString_hex mac"
    by (simp add: r encrypted_def toString_hex_inject)
  show "key_address r = toString_hex (addr key)" by (simp add: r encrypted_def)
next
  assume "kdf_delivers P passwd (fst (randomBytes 32 w))"
  then show "\<exists>r. fst (EncryptKey P key passwd w) = Inr r"
    by (auto simp add: kdf_delivers_iff EncryptKey_result)
qed

theorem encrypt_record_shape_witness:
  "kdf_delivers demo demo_passwd (fst (randomBytes 32 demo_world)) \<and>
   fst (EncryptKey demo demo_key demo_passwd demo_world) = Inr demo_record \<and>
   key_version demo_record = 3 \<and>
   crypto_cipher (key_crypto demo_record) = ''aes-128-ctr'' \<and>
   crypto_kdf (key_crypto demo_record) = ''scrypt'' \<and>
   kdfparams_dklen (crypto_kdfparams (key_crypto demo_record)) = 32 \<and>
   kdfparams_n (crypto_kdfparams (key_crypto demo_record)) = 262144 \<and>
   kdfparams_r (crypto_kdfparams (key_crypto demo_record)) = 8 \<and>
   kdfparams_p (crypto_kdfparams (key_crypto demo_record)) = 1 \<and>
   kdfparams_salt (crypto_kdfparams (key_crypto demo_record)) = toString_hex demo_salt \<and>
   length demo_salt = 32 \<and>
   cipherparams_iv (crypto_cipherparams (key_crypto demo_record)) = toString_hex demo_iv \<and>
   length demo_iv = 16 \<and>
   key_address demo_record = toString_hex (addr demo_key)"
proof -
  have "key_version demo_record = 3 \<and>
   crypto_cipher (key_crypto demo_record) = ''aes-128-ctr'' \<and>
   crypto_kdf (key_crypto demo_record) = ''scrypt'' \<and>
   kdfparams_dklen (crypto_kdfparams (key_crypto demo_record)) = 32 \<and>
   kdfparams_n (crypto_kdfparams (key_crypto demo_record)) = 262144 \<and>
   kdfparams_r (crypto_kdfparams (key_crypto demo_record)) = 8 \<and>
   kdfparams_p (crypto_kdfparams (key_crypto demo_record)) = 1 \<and>
   kdfparams_salt (crypto_kdfparams (key_crypto demo_record)) = toString_hex demo_salt \<and>
   length demo_salt = 32 \<and>
   cipherparams_iv (crypto_cipherparams (key_crypto demo_record)) = toString_hex demo_iv \<and>
   length demo_iv = 16 \<and>
   key_address demo_record = toString_hex (addr demo_key)"
    using encrypt_record_shape [of demo demo_key demo_passwd demo_world]
    by (simp add: demo_EncryptKey demo_randomBytes_32 randomBytes_16_after_32 demo_randomBytes_16)
  then show ?thesis
    using demo_kdf_delivers demo_EncryptKey by simp
qed

text \<open>
  C6. \<^verbatim>\<open>EncryptKey\<close> creates the cipher with bytes 0 to 15 of the derived key and stores
  as mac the hex text of the hash of bytes 16 to 31 followed by the ciphertext bytes.
  \<^verbatim>\<open>DecryptKey\<close> hashes bytes 16 to 31 of the key it derives followed by the stored
  ciphertext bytes, accepts the record exactly when the hex text of that hash is the
  stored mac, and then creates the cipher with bytes 0 to 15.
\<close>

theorem derived_key_split:
  "(scrypt_hashSync P passwd ScryptN ScryptR ScryptP ScryptDKLen (fst (randomBytes 32 w)) = Some d \<and>
    length d = 32 \<longrightarrow>
      (\<exists>r ct iv. fst (EncryptKey P key passwd w) = Inr r \<and>
         iv = fst (randomBytes 16 (snd (randomBytes 32 w))) \<and>
         ct = xor_keystream P (encryption_subkey d) iv 0 (prvkey key) \<and>
         crypto_ciphertext (key_crypto r) = toString_hex ct \<and>
         crypto_mac (key_crypto r) = toString_hex (sha3 P (mac_subkey d @ ct)) \<and>
         new_calls w (snd (EncryptKey P key passwd w)) =
           [RandomBytes 32,
            ScryptHashSync passwd ScryptN ScryptR ScryptP ScryptDKLen (fst (randomBytes 32 w)),
            RandomBytes 16,
            CreateCipheriv ''aes-128-ctr'' (encryption_subkey d) iv,
            CipherUpdate (prvkey key),
            Sha3 (mac_subkey d @ ct)])) \<and>
   (key_version r' = 3 \<and> crypto_cipher (key_crypto r') = ''aes-128-ctr'' \<and>
    crypto_kdf (key_crypto r') = ''scrypt'' \<and>
    Buffer_hex (kdfparams_salt (crypto_kdfparams (key_crypto r'))) = Some salt' \<and>
    scrypt_hashSync P passwd' (kdfparams_n (crypto_kdfparams (key_crypto r')))
      (kdfparams_r (crypto_kdfparams (key_crypto r'))) (kdfparams_p (crypto_kdfparams (key_crypto r')))
      (kdfparams_dklen (crypto_kdfparams (key_crypto r'))) salt' = Some d' \<and>
    length d' = 32 \<and>
    Buffer_hex (cipherparams_iv (crypto_cipherparams (key_crypto r'))) = Some iv' \<and> length iv' = 16 \<and>
    Buffer_hex (crypto_ciphertext (key_crypto r')) = Some ct' \<longrightarrow>
      (if crypto_mac (key_crypto r') = toString_hex (sha3 P (mac_subkey d' @ ct'))
       then fst (DecryptKey P (JsonText r') passwd' w') =
              Inr (toString_hex (xor_keystream P (encryption_subkey d') iv' 0 ct')) \<and>
            new_calls w' (snd (DecryptKey P (JsonText r') passwd' w')) =
              [ScryptHashSync passwd' (kdfparams_n (crypto_kdfparams (key_crypto r')))
                 (kdfparams_r (crypto_kdfparams (key_crypto r')))
                 (kdfparams_p (crypto_kdfparams (key_crypto r')))
                 (kdfparams_dklen (crypto_kdfparams (key_crypto r'))) salt',
               Sha3 (mac_subkey d' @ ct'),
               CreateCipheriv ''aes-128-ctr'' (encryption_subkey d') iv',
               CipherUpdate ct']
       else fst (DecryptKey P (JsonText r') passwd' w') =
              Inl (Throw ''could not decrypt key with given passphrase'') \<and>
            new_calls w' (snd (DecryptKey P (JsonText r') passwd' w')) =
              [ScryptHashSync passwd' (kdfparams_n (crypto_kdfparams (key_crypto r')))
                 (kdfparams_r (crypto_kdfparams (key_crypto r')))
                 (kdfparams_p (crypto_kdfparams (key_crypto r')))
                 (kdfparams_dklen (crypto_kdfparams (key_crypto r'))) salt',
               Sha3 (mac_subkey d' @ ct')]))"
proof (intro conjI impI)
  assume "scrypt_hashSync P passwd ScryptN ScryptR ScryptP ScryptDKLen (fst (randomBytes 32 w)) = Some d \<and>
    length d = 32"
  then have d: "scrypt_hashSync P passwd 262144 8 1 32 (fst (randomBytes 32 w)) = Some d"
    and len: "length d = 32"
    by (simp_all add: ScryptN_value ScryptR_def ScryptP_def ScryptDKLen_def)
  let ?iv = "fst (randomBytes 16 (snd (randomBytes 32 w)))"
  let ?ct = "xor_keystream P (encryption_subkey d) ?iv 0 (prvkey key)"
  let ?r = "encrypted P key (fst (randomBytes 32 w)) ?iv d"
  have t16: "take 16 d = encryption_subkey d"
    using slice_0_16 [OF len] by (simp add: slice_def)
  have d16: "drop 16 (take 32 d) = mac_subkey d"
    using slice_16_32 [OF len] by (simp add: slice_def)
  have enc: "fst (EncryptKey P key passwd w) = Inr ?r"
    using d len by (simp add: EncryptKey_result randomBytes_16_after_32)
  have "crypto_ciphertext (key_crypto ?r) = toString_hex ?ct"
    by (simp add: encrypted_def t16)
  moreover have "crypto_mac (key_crypto ?r) = toString_hex (sha3 P (mac_subkey d @ ?ct))"
    by (simp add: encrypted_def t16 d16)
  moreover have "new_calls w (snd (EncryptKey P key passwd w)) =
           [RandomBytes 32,
            ScryptHashSync passwd ScryptN ScryptR ScryptP ScryptDKLen (fst (randomBytes 32 w)),
            RandomBytes 16,
            CreateCipheriv ''aes-128-ctr'' (encryption_subkey d) ?iv,
            CipherUpdate (prvkey key),
            Sha3 (mac_subkey d @ ?ct)]"
    using EncryptKey_calls [OF d, of key] len
    by (simp add: slice_0_16 slice_16_32 ScryptN_value ScryptR_def ScryptP_def ScryptDKLen_def)
  ultimately show "\<exists>r ct iv. fst (EncryptKey P key passwd w) = Inr r \<and>
         iv = fst (randomBytes 16 (snd (randomBytes 32 w))) \<and>
         ct = xor_keystream P (encryption_subkey d) iv 0 (prvkey key) \<and>
         crypto_ciphertext (key_crypto r) = toString_hex ct \<and>
         crypto_mac (key_crypto r) = toString_hex (sha3 P (mac_subkey d @ ct)) \<and>
         new_calls w (snd (EncryptKey P key passwd w)) =
           [RandomBytes 32,
            ScryptHashSync passwd ScryptN ScryptR ScryptP ScryptDKLen (fst (randomBytes 32 w)),
            RandomBytes 16,
            CreateCipheriv ''aes-128-ctr'' (encryption_subkey d) iv,
            CipherUpdate (prvkey key),
            Sha3 (mac_subkey d @ ct)]"
    using enc by blast
next
  let ?cj = "key_crypto r'"
  assume a: "key_version r' = 3 \<and> crypto_cipher ?cj = ''aes-128-ctr'' \<and>
    crypto_kdf ?cj = ''scrypt'' \<and>
    Buffer_hex (kdfparams_salt (crypto_kdfparams ?cj)) = Some salt' \<and>
    scrypt_hashSync P passwd' (kdfparams_n (crypto_kdfparams ?cj))
      (kdfparams_r (crypto_kdfparams ?cj)) (kdfparams_p (crypto_kdfparams ?cj))
      (kdfparams_dklen (crypto_kdfparams ?cj)) salt' = Some d' \<and>
    length d' = 32 \<and>
    Buffer_hex (cipherparams_iv (crypto_cipherparams ?cj)) = Some iv' \<and> length iv' = 16 \<and>
    Buffer_hex (crypto_ciphertext ?cj) = Some ct'"
  then have len: "length d' = 32" and ivlen: "length iv' = 16"
    and a1: "crypto_cipher ?cj = ''aes-128-ctr''" and a2: "crypto_kdf ?cj = ''scrypt''"
    and a3: "Buffer_hex (kdfparams_salt (crypto_kdfparams ?cj)) = Some salt'"
    and a4: "scrypt_hashSync P passwd' (kdfparams_n (crypto_kdfparams ?cj))
      (kdfparams_r (crypto_kdfparams ?cj)) (kdfparams_p (crypto_kdfparams ?cj))
      (kdfparams_dklen (crypto_kdfparams ?cj)) salt' = Some d'"
    and a5: "Buffer_hex (cipherparams_iv (crypto_cipherparams ?cj)) = Some iv'"
    and a6: "Buffer_hex (crypto_ciphertext ?cj) = Some ct'"
    by blast+
  have k: "length (slice 0 16 d') = 16" using len by (simp add: slice_def)
  have res: "fst (DecryptKeyV3 P (as_parsed_crypto ?cj) passwd' w') = decrypted P (crypto_mac ?cj) d' iv' ct'"
    by (rule DecryptKeyV3_result [OF a1 a2 a3 a4 a5 a6])
  have cs: "new_calls w' (snd (DecryptKeyV3 P (as_parsed_crypto ?cj) passwd' w')) =
     [ScryptHashSync passwd' (kdfparams_n (crypto_kdfparams ?cj)) (kdfparams_r (crypto_kdfparams ?cj))
        (kdfparams_p (crypto_kdfparams ?cj)) (kdfparams_dklen (crypto_kdfparams ?cj)) salt',
      Sha3 (slice 16 32 d' @ ct')] @
     (if toString_hex (sha3 P (slice 16 32 d' @ ct')) \<noteq> crypto_mac ?cj then []
      else [CreateCipheriv ''aes-128-ctr'' (slice 0 16 d') iv', CipherUpdate ct'])"
    by (rule DecryptKeyV3_calls [OF a1 a2 a3 a4 a5 a6 k ivlen])
  show "if crypto_mac ?cj = toString_hex (sha3 P (mac_subkey d' @ ct'))
       then fst (DecryptKey P (JsonText r') passwd' w') =
              Inr (toString_hex (xor_keystream P (encryption_subkey d') iv' 0 ct')) \<and>
            new_calls w' (snd (DecryptKey P (JsonText r') passwd' w')) =
              [ScryptHashSync passwd' (kdfparams_n (crypto_kdfparams ?cj))
                 (kdfparams_r (crypto_kdfparams ?cj))
                 (kdfparams_p (crypto_kdfparams ?cj))
                 (kdfparams_dklen (crypto_kdfparams ?cj)) salt',
               Sha3 (mac_subkey d' @ ct'),
               CreateCipheriv ''aes-128-ctr'' (encryption_subkey d') iv',
               CipherUpdate ct']
       else fst (DecryptKey P (JsonText r') passwd' w') =
              Inl (Throw ''could not decrypt key with given passphrase'') \<and>
            new_calls w' (snd (DecryptKey P (JsonText r') passwd' w')) =
              [ScryptHashSync passwd' (kdfparams_n (crypto_kdfparams ?cj))
                 (kdfparams_r (crypto_kdfparams ?cj))
                 (kdfparams_p (crypto_kdfparams ?cj))
                 (kdfparams_dklen (crypto_kdfparams ?cj)) salt',
               Sha3 (mac_subkey d' @ ct')]"
    using a res cs k ivlen
    by (auto simp add: DecryptKey_JsonText decrypted_def slice_0_16 [OF len] slice_16_32 [OF len])
qed

theorem derived_key_split_witness:
  "scrypt_hashSync demo demo_passwd ScryptN ScryptR ScryptP ScryptDKLen (fst (randomBytes 32 demo_world)) =
     Some demo_dpasswd \<and>
   length demo_dpasswd = 32 \<and>
   encryption_subkey demo_dpasswd =
     [44, 51, 58, 65, 72, 79, 86, 93, 100, 107, 114, 121, 128, 135, 142, 149] \<and>
   mac_subkey demo_dpasswd =
     [156, 163, 170, 177, 184, 191, 198, 205, 212, 219, 226, 233, 240, 247, 254, 5] \<and>
   fst (EncryptKey demo demo_key demo_passwd demo_world) = Inr demo_record \<and>
   crypto_ciphertext (key_crypto demo_record) =
     toString_hex (xor_keystream demo (encryption_subkey demo_dpasswd) demo_iv 0 (prvkey demo_key)) \<and>
   crypto_mac (key_crypto demo_record) =
     toString_hex (sha3 demo (mac_subkey demo_dpasswd @ demo_ciphertext)) \<and>
   new_calls demo_world (snd (EncryptKey demo demo_key demo_passwd demo_world)) =
     [RandomBytes 32,
      ScryptHashSync demo_passwd 262144 8 1 32 demo_salt,
      RandomBytes 16,
      CreateCipheriv ''aes-128-ctr'' (encryption_subkey demo_dpasswd) demo_iv,
      CipherUpdate (prvkey demo_key),
      Sha3 (mac_subkey demo_dpasswd @ demo_ciphertext)] \<and>
   fst (DecryptKey demo (JsonText demo_record) demo_passwd demo_world) =
     Inr (toString_hex (xor_keystream demo (encryption_subkey demo_dpasswd) demo_iv 0 demo_ciphertext)) \<and>
   new_calls demo_world (snd (DecryptKey demo (JsonText demo_record) demo_passwd demo_world)) =
     [ScryptHashSync demo_passwd 262144 8 1 32 demo_salt,
      Sha3 (mac_subkey demo_dpasswd @ demo_ciphertext),
      CreateCipheriv ''aes-128-ctr'' (encryption_subkey demo_dpasswd) demo_iv,
      CipherUpdate demo_ciphertext]"
proof -
  note at_demo = derived_key_split [of demo demo_passwd demo_world demo_dpasswd demo_key
      demo_record demo_salt demo_passwd demo_dpasswd demo_iv demo_ciphertext demo_world]
  have h1: "scrypt_hashSync demo demo_passwd ScryptN ScryptR ScryptP ScryptDKLen
              (fst (randomBytes 32 demo_world)) = Some demo_dpasswd"
    by (simp add: ScryptN_value ScryptR_def ScryptP_def ScryptDKLen_def demo_randomBytes_32
        demo_scrypt_value)
  have len: "length demo_dpasswd = 32" by (simp add: demo_dpasswd_def)
  have iv: "fst (randomBytes 16 (snd (randomBytes 32 demo_world))) = demo_iv"
    by (simp only: randomBytes_16_after_32 demo_randomBytes_16)
  have sub: "mac_subkey demo_dpasswd = drop 16 (take 32 demo_dpasswd)"
    using slice_16_32 [OF len] by (simp add: slice_def)
  have params: "ScryptHashSync demo_passwd ScryptN ScryptR ScryptP ScryptDKLen (fst (randomBytes 32 demo_world)) =
      ScryptHashSync demo_passwd 262144 8 1 32 demo_salt"
    by (simp add: ScryptN_value ScryptR_def ScryptP_def ScryptDKLen_def demo_randomBytes_32)
  from at_demo h1 len obtain r ct where
    r: "fst (EncryptKey demo demo_key demo_passwd demo_world) = Inr r"
    and ct: "ct = xor_keystream demo (encryption_subkey demo_dpasswd) demo_iv 0 (prvkey demo_key)"
    and c1: "crypto_ciphertext (key_crypto r) = toString_hex ct"
    and c2: "crypto_mac (key_crypto r) = toString_hex (sha3 demo (mac_subkey demo_dpasswd @ ct))"
    and c3: "new_calls demo_world (snd (EncryptKey demo demo_key demo_passwd demo_world)) =
           [RandomBytes 32,
            ScryptHashSync demo_passwd ScryptN ScryptR ScryptP ScryptDKLen (fst (randomBytes 32 demo_world)),
            RandomBytes 16,
            CreateCipheriv ''aes-128-ctr'' (encryption_subkey demo_dpasswd) demo_iv,
            CipherUpdate (prvkey demo_key),
            Sha3 (mac_subkey demo_dpasswd @ ct)]"
    unfolding iv by blast
  have ctv: "ct = demo_ciphertext"
    using slice_0_16 [OF len] by (simp add: ct slice_def demo_ciphertext_value [symmetric])
  have rv: "r = demo_record"
    using r by (simp add: demo_EncryptKey)
  have h2: "key_version demo_record = 3 \<and> crypto_cipher (key_crypto demo_record) = ''aes-128-ctr'' \<and>
    crypto_kdf (key_crypto demo_record) = ''scrypt'' \<and>
    Buffer_hex (kdfparams_salt (crypto_kdfparams (key_crypto demo_record))) = Some demo_salt \<and>
    scrypt_hashSync demo demo_passwd (kdfparams_n (crypto_kdfparams (key_crypto demo_record)))
      (kdfparams_r (crypto_kdfparams (key_crypto demo_record)))
      (kdfparams_p (crypto_kdfparams (key_crypto demo_record)))
      (kdfparams_dklen (crypto_kdfparams (key_crypto demo_record))) demo_salt = Some demo_dpasswd \<and>
    length demo_dpasswd = 32 \<and>
    Buffer_hex (cipherparams_iv (crypto_cipherparams (key_crypto demo_record))) = Some demo_iv \<and>
    length demo_iv = 16 \<and>
    Buffer_hex (crypto_ciphertext (key_crypto demo_record)) = Some demo_ciphertext"
    by (simp add: demo_record_fields demo_record_iv demo_record_hex_fields demo_scrypt_value len)
      (simp add: demo_iv_def)
  have m: "crypto_mac (key_crypto demo_record) =
      toString_hex (sha3 demo (mac_subkey demo_dpasswd @ demo_ciphertext))"
    by (simp only: demo_record_hex_fields sub demo_mac_value)
  from at_demo h2 m have dec:
    "fst (DecryptKey demo (JsonText demo_record) demo_passwd demo_world) =
       Inr (toString_hex (xor_keystream demo (encryption_subkey demo_dpasswd) demo_iv 0 demo_ciphertext)) \<and>
     new_calls demo_world (snd (DecryptKey demo (JsonText demo_record) demo_passwd demo_world)) =
       [ScryptHashSync demo_passwd (kdfparams_n (crypto_kdfparams (key_crypto demo_record)))
          (kdfparams_r (crypto_kdfparams (key_crypto demo_record)))
          (kdfparams_p (crypto_kdfparams (key_crypto demo_record)))
          (kdfparams_dklen (crypto_kdfparams (key_crypto demo_record))) demo_salt,
        Sha3 (mac_subkey demo_dpasswd @ demo_ciphertext),
        CreateCipheriv ''aes-128-ctr'' (encryption_subkey demo_dpasswd) demo_iv,
        CipherUpdate demo_ciphertext]"
    by presburger
  show ?thesis
  proof (intro conjI)
    show "scrypt_hashSync demo demo_passwd ScryptN ScryptR ScryptP ScryptDKLen
              (fst (randomBytes 32 demo_world)) = Some demo_dpasswd" by (rule h1)
    show "length demo_dpasswd = 32" by (rule len)
    show "encryption_subkey demo_dpasswd =
        [44, 51, 58, 65, 72, 79, 86, 93, 100, 107, 114, 121, 128, 135, 142, 149]"
      by (rule demo_subkeys)
    show "mac_subkey demo_dpasswd =
        [156, 163, 170, 177, 184, 191, 198, 205, 212, 219, 226, 233, 240, 247, 254, 5]"
      by (rule demo_subkeys)
    show "fst (EncryptKey demo demo_key demo_passwd demo_world) = Inr demo_record"
      by (rule demo_EncryptKey)
    show "crypto_ciphertext (key_crypto demo_record) =
        toString_hex (xor_keystream demo (encryption_subkey demo_dpasswd) demo_iv 0 (prvkey demo_key))"
      using c1 by (simp only: rv ct)
    show "crypto_mac (key_crypto demo_record) =
        toString_hex (sha3 demo (mac_subkey demo_dpasswd @ demo_ciphertext))" by (rule m)
    show "new_calls demo_world (snd (EncryptKey demo demo_key demo_passwd demo_world)) =
       [RandomBytes 32,
        ScryptHashSync demo_passwd 262144 8 1 32 demo_salt,
        RandomBytes 16,
        CreateCipheriv ''aes-128-ctr'' (encryption_subkey demo_dpasswd) demo_iv,
        CipherUpdate (prvkey demo_key),
        Sha3 (mac_subkey demo_dpasswd @ demo_ciphertext)]"
      using c3 by (simp only: params ctv)
    show "fst (DecryptKey demo (JsonText demo_record) demo_passwd demo_world) =
       Inr (toString_hex (xor_keystream demo (encryption_subkey demo_dpasswd) demo_iv 0 demo_ciphertext))"
      using dec by (rule conjunct1)
    show "new_calls demo_world (snd (DecryptKey demo (JsonText demo_record) demo_passwd demo_world)) =
       [ScryptHashSync demo_passwd 262144 8 1 32 demo_salt,
        Sha3 (mac_subkey demo_dpasswd @ demo_ciphertext),
        CreateCipheriv ''aes-128-ctr'' (encryption_subkey demo_dpasswd) demo_iv,
        CipherUpdate demo_ciphertext]"
      using dec by (simp only: demo_record_hex_fields)
  qed
qed

text \<open>
  C7. Every key pair \<^verbatim>\<open>GenKey\<close> returns has a private key of 32 bytes that
  \<^verbatim>\<open>ethutil.isValidPrivate\<close> accepts (with the secp256k1 test for it: non-zero and below
  the order of the curve); its public key is \<^verbatim>\<open>privateToPublic\<close> of the private key and
  its address \<^verbatim>\<open>pubToAddress\<close> of the public key, so two returned key pairs with the same
  private key have the same public key and address.
\<close>

theorem generated_key_valid:
  "(GenKey P w = Some (kp, w') \<longrightarrow>
      isValidPrivate P (prvkey kp) \<and> length (prvkey kp) = 32 \<and>
      pubkey kp = privateToPublic P (prvkey kp) \<and>
      addr kp = pubToAddress P (pubkey kp) \<and>
      (isValidPrivate P = secp256k1_privateKeyVerify \<longrightarrow>
         0 < be_int (prvkey kp) \<and> be_int (prvkey kp) < secp256k1_n)) \<and>
   (GenKey P w1 = Some (kp1, w1') \<and> GenKey P w2 = Some (kp2, w2') \<and> prvkey kp1 = prvkey kp2 \<longrightarrow>
      pubkey kp1 = pubkey kp2 \<and> addr kp1 = addr kp2)"
proof (intro conjI impI)
  assume g: "GenKey P w = Some (kp, w')"
  then have loop: "GenKey_loop P w = Some (prvkey kp, w')"
    and pub: "pubkey kp = privateToPublic P (prvkey kp)"
    and ad: "addr kp = pubToAddress P (privateToPublic P (prvkey kp))"
    by (simp_all add: GenKey_Some)
  from loop obtain k where k: "isValidPrivate P (draw w k)" "prvkey kp = draw w k"
    using GenKey_loop_returns_valid by blast
  show valid: "isValidPrivate P (prvkey kp)" using k by simp
  show "length (prvkey kp) = 32" using k by (simp add: length_draw)
  show "pubkey kp = privateToPublic P (prvkey kp)" by (rule pub)
  show "addr kp = pubToAddress P (pubkey kp)" using ad pub by simp
  assume "isValidPrivate P = secp256k1_privateKeyVerify"
  with valid have v: "secp256k1_privateKeyVerify (prvkey kp)" by simp
  show "0 < be_int (prvkey kp)" using v by (simp add: secp256k1_privateKeyVerify_def)
  show "be_int (prvkey kp) < secp256k1_n" using v by (simp add: secp256k1_privateKeyVerify_def)
next
  assume a: "GenKey P w1 = Some (kp1, w1') \<and> GenKey P w2 = Some (kp2, w2') \<and> prvkey kp1 = prvkey kp2"
  then show "pubkey kp1 = pubkey kp2" by (simp add: GenKey_Some)
  from a show "addr kp1 = addr kp2" by (simp add: GenKey_Some)
qed

theorem generated_key_valid_witness:
  "GenKey demo (demo_world_late 2) =
     Some (\<lparr>prvkey = replicate 32 1, pubkey = privateToPublic demo (replicate 32 1),
            addr = pubToAddress demo (privateToPublic demo (replicate 32 1))\<rparr>,
           after_draws (demo_world_late 2) 3) \<and>
   isValidPrivate demo (replicate 32 1) \<and>
   0 < be_int (replicate 32 1) \<and> be_int (replicate 32 1) < secp256k1_n"
proof -
  let ?kp = "\<lparr>prvkey = replicate 32 1, pubkey = privateToPublic demo (replicate 32 1),
            addr = pubToAddress demo (privateToPublic demo (replicate 32 1))\<rparr>"
  have "\<forall>j < 2. \<not> isValidPrivate demo (draw (demo_world_late 2) j)"
    by (simp add: demo_isValidPrivate draw_late_before zeros_invalid)
  moreover have "isValidPrivate demo (draw (demo_world_late 2) 2)"
    by (simp add: demo_isValidPrivate draw_late_at ones_valid)
  ultimately have "GenKey_loop demo (demo_world_late 2) =
      Some (draw (demo_world_late 2) 2, after_draws (demo_world_late 2) (Suc 2))"
    by (rule GenKey_loop_first_valid)
  then have g: "GenKey demo (demo_world_late 2) = Some (?kp, after_draws (demo_world_late 2) 3)"
    by (simp add: GenKey_def Let_def draw_late_at)
  then show ?thesis
    using generated_key_valid [of demo "demo_world_late 2" ?kp "after_draws (demo_world_late 2) 3"]
    by (simp add: demo_isValidPrivate)
qed

text \<open>
  A further property (X1), the part of C8 that holds whatever the library functions are.
  Two calls of \<^verbatim>\<open>EncryptKey\<close> with the same key pair and passphrase both return a record
  that decrypts back to the private key; if the salts drawn differ, the salt fields and
  the records differ; if the initialization vectors drawn differ, the iv fields and the
  records differ; and the ciphertext fields differ exactly when the two key streams turn
  the private key into different bytes.
\<close>

theorem fresh_entropy_distinct_records:
  assumes "scrypt_hashSync P passwd ScryptN ScryptR ScryptP ScryptDKLen (fst (randomBytes 32 w1)) = Some d1"
    and "length d1 = 32"
    and "scrypt_hashSync P passwd ScryptN ScryptR ScryptP ScryptDKLen (fst (randomBytes 32 w2)) = Some d2"
    and "length d2 = 32"
  shows "\<exists>r1 r2 iv1 iv2.
     fst (EncryptKey P key passwd w1) = Inr r1 \<and> fst (EncryptKey P key passwd w2) = Inr r2 \<and>
     iv1 = fst (randomBytes 16 (snd (randomBytes 32 w1))) \<and>
     iv2 = fst (randomBytes 16 (snd (randomBytes 32 w2))) \<and>
     (fst (randomBytes 32 w1) \<noteq> fst (randomBytes 32 w2) \<longrightarrow>
        kdfparams_salt (crypto_kdfparams (key_crypto r1)) \<noteq> kdfparams_salt (crypto_kdfparams (key_crypto r2)) \<and>
        r1 \<noteq> r2) \<and>
     (iv1 \<noteq> iv2 \<longrightarrow>
        cipherparams_iv (crypto_cipherparams (key_crypto r1)) \<noteq>
          cipherparams_iv (crypto_cipherparams (key_crypto r2)) \<and>
        r1 \<noteq> r2) \<and>
     (crypto_ciphertext (key_crypto r1) \<noteq> crypto_ciphertext (key_crypto r2) \<longleftrightarrow>
        xor_keystream P (encryption_subkey d1) iv1 0 (prvkey key) \<noteq>
        xor_keystream P (encryption_subkey d2) iv2 0 (prvkey key)) \<and>
     (crypto_mac (key_crypto r1) \<noteq> crypto_mac (key_crypto r2) \<longleftrightarrow>
        sha3 P (mac_subkey d1 @ xor_keystream P (encryption_subkey d1) iv1 0 (prvkey key)) \<noteq>
        sha3 P (mac_subkey d2 @ xor_keystream P (encryption_subkey d2) iv2 0 (prvkey key))) \<and>
     fst (DecryptKey P (JSON_stringify r1) passwd w') = Inr (toString_hex (prvkey key)) \<and>
     fst (DecryptKey P (JSON_stringify r2) passwd w') = Inr (toString_hex (prvkey key))"
proof -
  from assms have d1: "scrypt_hashSync P passwd 262144 8 1 32 (fst (randomBytes 32 w1)) = Some d1"
    and d2: "scrypt_hashSync P passwd 262144 8 1 32 (fst (randomBytes 32 w2)) = Some d2"
    and l1: "length d1 = 32" and l2: "length d2 = 32"
    by (simp_all add: ScryptN_value ScryptR_def ScryptP_def ScryptDKLen_def)
  let ?iv1 = "fst (randomBytes 16 (snd (randomBytes 32 w1)))"
  let ?iv2 = "fst (randomBytes 16 (snd (randomBytes 32 w2)))"
  let ?r1 = "encrypted P key (fst (randomBytes 32 w1)) ?iv1 d1"
  let ?r2 = "encrypted P key (fst (randomBytes 32 w2)) ?iv2 d2"
  have t1: "take 16 d1 = encryption_subkey d1" using slice_0_16 [OF l1] by (simp add: slice_def)
  have t2: "take 16 d2 = encryption_subkey d2" using slice_0_16 [OF l2] by (simp add: slice_def)
  have e1: "fst (EncryptKey P key passwd w1) = Inr ?r1"
    using d1 l1 by (simp add: EncryptKey_result randomBytes_16_after_32)
  have e2: "fst (EncryptKey P key passwd w2) = Inr ?r2"
    using d2 l2 by (simp add: EncryptKey_result randomBytes_16_after_32)
  have salt: "fst (randomBytes 32 w1) \<noteq> fst (randomBytes 32 w2) \<longrightarrow>
        kdfparams_salt (crypto_kdfparams (key_crypto ?r1)) \<noteq> kdfparams_salt (crypto_kdfparams (key_crypto ?r2)) \<and>
        ?r1 \<noteq> ?r2"
    by (auto simp add: encrypted_def toString_hex_inject)
  have iv: "?iv1 \<noteq> ?iv2 \<longrightarrow>
        cipherparams_iv (crypto_cipherparams (key_crypto ?r1)) \<noteq>
          cipherparams_iv (crypto_cipherparams (key_crypto ?r2)) \<and>
        ?r1 \<noteq> ?r2"
    by (auto simp add: encrypted_def toString_hex_inject)
  have ct: "crypto_ciphertext (key_crypto ?r1) \<noteq> crypto_ciphertext (key_crypto ?r2) \<longleftrightarrow>
        xor_keystream P (encryption_subkey d1) ?iv1 0 (prvkey key) \<noteq>
        xor_keystream P (encryption_subkey d2) ?iv2 0 (prvkey key)"
    by (simp add: encrypted_def toString_hex_inject t1 t2)
  have m1: "drop 16 (take 32 d1) = mac_subkey d1" using slice_16_32 [OF l1] by (simp add: slice_def)
  have m2: "drop 16 (take 32 d2) = mac_subkey d2" using slice_16_32 [OF l2] by (simp add: slice_def)
  have mac: "crypto_mac (key_crypto ?r1) \<noteq> crypto_mac (key_crypto ?r2) \<longleftrightarrow>
        sha3 P (mac_subkey d1 @ xor_keystream P (encryption_subkey d1) ?iv1 0 (prvkey key)) \<noteq>
        sha3 P (mac_subkey d2 @ xor_keystream P (encryption_subkey d2) ?iv2 0 (prvkey key))"
    by (simp add: encrypted_def toString_hex_inject t1 t2 m1 m2)
  have dec1: "fst (DecryptKey P (JSON_stringify ?r1) passwd w') = Inr (toString_hex (prvkey key))"
    unfolding JSON_stringify_def using d1 l1 by (simp add: DecryptKey_encrypted length_randomBytes)
  have dec2: "fst (DecryptKey P (JSON_stringify ?r2) passwd w') = Inr (toString_hex (prvkey key))"
    unfolding JSON_stringify_def using d2 l2 by (simp add: DecryptKey_encrypted length_randomBytes)
  from e1 e2 salt iv ct mac dec1 dec2 show ?thesis by blast
qed

theorem fresh_entropy_distinct_records_witness:
  "fst (randomBytes 32 demo_world) \<noteq> fst (randomBytes 32 demo_world2) \<and>
   fst (randomBytes 16 (snd (randomBytes 32 demo_world))) \<noteq>
     fst (randomBytes 16 (snd (randomBytes 32 demo_world2))) \<and>
   (\<exists>r1 r2. fst (EncryptKey demo demo_key demo_passwd demo_world) = Inr r1 \<and>
      fst (EncryptKey demo demo_key demo_passwd demo_world2) = Inr r2 \<and>
      r1 \<noteq> r2 \<and>
      kdfparams_salt (crypto_kdfparams (key_crypto r1)) \<noteq> kdfparams_salt (crypto_kdfparams (key_crypto r2)) \<and>
      cipherparams_iv (crypto_cipherparams (key_crypto r1)) \<noteq>
        cipherparams_iv (crypto_cipherparams (key_crypto r2)) \<and>
      fst (DecryptKey demo (JSON_stringify r1) demo_passwd demo_world) =
        Inr ''0102030405060708090a0b0c0d0e0f101112131415161718191a1b1c1d1e1f20'' \<and>
      fst (DecryptKey demo (JSON_stringify r2) demo_passwd demo_world) =
        Inr ''0102030405060708090a0b0c0d0e0f101112131415161718191a1b1c1d1e1f20'')"
proof -
  have s: "fst (randomBytes 32 demo_world) \<noteq> fst (randomBytes 32 demo_world2)"
  proof
    assume "fst (randomBytes 32 demo_world) = fst (randomBytes 32 demo_world2)"
    then have "fst (randomBytes 32 demo_world) ! 0 = fst (randomBytes 32 demo_world2) ! 0" by simp
    then show False by (simp add: demo_world2_first_bytes)
  qed
  have i: "fst (randomBytes 16 (snd (randomBytes 32 demo_world))) \<noteq>
     fst (randomBytes 16 (snd (randomBytes 32 demo_world2)))"
  proof
    assume "fst (randomBytes 16 (snd (randomBytes 32 demo_world))) =
     fst (randomBytes 16 (snd (randomBytes 32 demo_world2)))"
    then have "fst (randomBytes 16 (snd (randomBytes 32 demo_world))) ! 0 =
     fst (randomBytes 16 (snd (randomBytes 32 demo_world2))) ! 0" by simp
    then show False by (simp add: demo_world2_first_bytes)
  qed
  have h1: "scrypt_hashSync demo demo_passwd ScryptN ScryptR ScryptP ScryptDKLen
      (fst (randomBytes 32 demo_world)) = Some demo_dpasswd"
    by (simp add: ScryptN_value ScryptR_def ScryptP_def ScryptDKLen_def demo_randomBytes_32
        demo_scrypt_value)
  have l1: "length demo_dpasswd = 32" by (simp add: demo_dpasswd_def)
  let ?d2 = "map (\<lambda>i. of_nat (7 * i + length demo_passwd) + sum_list (fst (randomBytes 32 demo_world2)))
      [0 ..< 32] :: buffer"
  have h2: "scrypt_hashSync demo demo_passwd ScryptN ScryptR ScryptP ScryptDKLen
      (fst (randomBytes 32 demo_world2)) = Some ?d2"
    by (simp only: ScryptN_value ScryptR_def ScryptP_def ScryptDKLen_def demo_kdf_any_salt)
  have l2: "length ?d2 = 32" by simp
  from fresh_entropy_distinct_records [OF h1 l1 h2 l2, of demo_key demo_world] s i
  show ?thesis
    by (simp only: demo_hex_values) blast
qed

text \<open>
  C9. Whatever \<^verbatim>\<open>DecryptKey\<close> returns is the lowercase hex text of some bytes (a string,
  from which \<^verbatim>\<open>new Buffer(_, 'hex')\<close> recovers the bytes), not a Buffer. Its first
  argument goes through \<^verbatim>\<open>JSON.parse\<close>: given an object, such as the one
  \<^verbatim>\<open>EncryptKey\<close> returns, it throws a \<^verbatim>\<open>SyntaxError\<close> and calls nothing; given the
  serialized record, it returns the hex text of the private key, twice as long as the
  key, whose decoding is the key.
\<close>

theorem decrypt_returns_hex_text:
  "(\<forall>s. fst (DecryptKey P a passwd w) = Inr s \<longrightarrow>
      (\<exists>buf. s = toString_hex buf \<and> Buffer_hex s = Some buf) \<and>
      set s \<subseteq> set ''0123456789abcdef'') \<and>
   DecryptKey P (JsObject r) passwd w = (Inl SyntaxError, w) \<and>
   (kdf_delivers P passwd (fst (randomBytes 32 w)) \<longrightarrow>
      (\<exists>r'. fst (EncryptKey P key passwd w) = Inr r' \<and>
            fst (DecryptKey P (JsObject r') passwd w') = Inl SyntaxError \<and>
            fst (DecryptKey P (JSON_stringify r') passwd w') = Inr (toString_hex (prvkey key)) \<and>
            length (toString_hex (prvkey key)) = 2 * length (prvkey key) \<and>
            Buffer_hex (toString_hex (prvkey key)) = Some (prvkey key)))"
proof (intro conjI allI impI)
  fix s
  assume "fst (DecryptKey P a passwd w) = Inr s"
  then obtain buf where s: "s = toString_hex buf" using DecryptKey_hex by blast
  show "\<exists>buf. s = toString_hex buf \<and> Buffer_hex s = Some buf"
    using s by (auto simp add: Buffer_hex_toString_hex)
  show "set s \<subseteq> set ''0123456789abcdef''"
    unfolding s by (rule toString_hex_lowercase)
next
  show "DecryptKey P (JsObject r) passwd w = (Inl SyntaxError, w)"
    by (simp add: DecryptKey_def JSON_parse_def)
next
  assume "kdf_delivers P passwd (fst (randomBytes 32 w))"
  then obtain d
    where d: "scrypt_hashSync P passwd 262144 8 1 32 (fst (randomBytes 32 w)) = Some d"
      and len: "length d = 32"
    by (auto simp add: kdf_delivers_iff)
  let ?r = "encrypted P key (fst (randomBytes 32 w)) (map (entropy w) [consumed w + 32 ..< consumed w + 48]) d"
  have "fst (EncryptKey P key passwd w) = Inr ?r"
    using d len by (simp add: EncryptKey_result)
  moreover have "fst (DecryptKey P (JsObject ?r) passwd w') = Inl SyntaxError"
    by (simp add: DecryptKey_def JSON_parse_def)
  moreover have "fst (DecryptKey P (JSON_stringify ?r) passwd w') = Inr (toString_hex (prvkey key))"
    unfolding JSON_stringify_def using d len by (simp add: DecryptKey_encrypted)
  ultimately show "\<exists>r'. fst (EncryptKey P key passwd w) = Inr r' \<and>
            fst (DecryptKey P (JsObject r') passwd w') = Inl SyntaxError \<and>
            fst (DecryptKey P (JSON_stringify r') passwd w') = Inr (toString_hex (prvkey key)) \<and>
            length (toString_hex (prvkey key)) = 2 * length (prvkey key) \<and>
            Buffer_hex (toString_hex (prvkey key)) = Some (prvkey key)"
    by (simp add: Buffer_hex_toString_hex length_toString_hex)
qed

theorem decrypt_returns_hex_text_witness:
  "kdf_delivers demo demo_passwd (fst (randomBytes 32 demo_world)) \<and>
   fst (EncryptKey demo demo_key demo_passwd demo_world) = Inr demo_record \<and>
   DecryptKey demo (JsObject demo_record) demo_passwd demo_world = (Inl SyntaxError, demo_world) \<and>
   fst (DecryptKey demo (JSON_stringify demo_record) demo_passwd demo_world) =
     Inr ''0102030405060708090a0b0c0d0e0f101112131415161718191a1b1c1d1e1f20'' \<and>
   set ''0102030405060708090a0b0c0d0e0f101112131415161718191a1b1c1d1e1f20'' \<subseteq> set ''0123456789abcdef'' \<and>
   Buffer_hex ''0102030405060708090a0b0c0d0e0f101112131415161718191a1b1c1d1e1f20'' = Some (prvkey demo_key)"
proof -
  note at_demo = decrypt_returns_hex_text [of demo "JSON_stringify demo_record" demo_passwd demo_world
      demo_record demo_key demo_world]
  have dec: "fst (DecryptKey demo (JSON_stringify demo_record) demo_passwd demo_world) =
     Inr ''0102030405060708090a0b0c0d0e0f101112131415161718191a1b1c1d1e1f20''"
    by (simp add: JSON_stringify_def demo_DecryptKey)
  with at_demo have "set ''0102030405060708090a0b0c0d0e0f101112131415161718191a1b1c1d1e1f20''
      \<subseteq> set ''0123456789abcdef''"
    by blast
  moreover from at_demo have "DecryptKey demo (JsObject demo_record) demo_passwd demo_world =
      (Inl SyntaxError, demo_world)"
    by blast
  moreover have "Buffer_hex ''0102030405060708090a0b0c0d0e0f101112131415161718191a1b1c1d1e1f20'' =
      Some (prvkey demo_key)"
    using Buffer_hex_toString_hex [of "prvkey demo_key"] by (simp add: demo_hex_values)
  ultimately show ?thesis
    using dec by (simp add: demo_kdf_delivers demo_EncryptKey)
qed

text \<open>
  C10. The loop of \<^verbatim>\<open>GenKey\<close> has no bound and no failure path: \<^verbatim>\<open>GenKey\<close> returns
  if and only if some block of 32 bytes the entropy source delivers is a valid private
  key; it never returns when none is; and when the first valid block is block \<open>k\<close>, for
  any \<open>k\<close>, it returns that block after \<open>k + 1\<close> draws.
\<close>

theorem genkey_loop_has_no_bound:
  "((\<exists>res. GenKey P w = Some res) \<longleftrightarrow> (\<exists>k. isValidPrivate P (draw w k))) \<and>
   ((\<forall>k. \<not> isValidPrivate P (draw w k)) \<longrightarrow> GenKey P w = None) \<and>
   ((\<forall>j < k. \<not> isValidPrivate P (draw w j)) \<and> isValidPrivate P (draw w k) \<longrightarrow>
      (\<exists>kp. GenKey P w = Some (kp, after_draws w (Suc k)) \<and> prvkey kp = draw w k))"
proof (intro conjI impI)
  show "(\<exists>res. GenKey P w = Some res) \<longleftrightarrow> (\<exists>k. isValidPrivate P (draw w k))"
    using GenKey_loop_Some_iff [of P w] GenKey_None [of P w] by (metis not_Some_eq)
next
  assume "\<forall>k. \<not> isValidPrivate P (draw w k)"
  then have "GenKey_loop P w = None"
    using GenKey_loop_Some_iff [of P w] by (metis not_Some_eq)
  then show "GenKey P w = None" by (simp add: GenKey_None)
next
  assume "(\<forall>j < k. \<not> isValidPrivate P (draw w j)) \<and> isValidPrivate P (draw w k)"
  then have "GenKey_loop P w = Some (draw w k, after_draws w (Suc k))"
    using GenKey_loop_first_valid by blast
  then show "\<exists>kp. GenKey P w = Some (kp, after_draws w (Suc k)) \<and> prvkey kp = draw w k"
    by (simp add: GenKey_def Let_def)
qed

theorem genkey_loop_has_no_bound_witness:
  "GenKey demo demo_world_stuck = None \<and>
   (\<exists>kp. GenKey demo (demo_world_late 1000) = Some (kp, after_draws (demo_world_late 1000) 1001) \<and>
         prvkey kp = replicate 32 1) \<and>
   consumed (after_draws (demo_world_late 1000) 1001) = 32032 \<and>
   length (new_calls (demo_world_late 1000) (after_draws (demo_world_late 1000) 1001)) = 1001"
proof -
  have "\<forall>k. \<not> isValidPrivate demo (draw demo_world_stuck k)"
    by (simp add: demo_isValidPrivate draw_stuck zeros_invalid)
  then have "GenKey demo demo_world_stuck = None"
    using genkey_loop_has_no_bound [of demo demo_world_stuck] by blast
  moreover have "(\<forall>j < 1000. \<not> isValidPrivate demo (draw (demo_world_late 1000) j)) \<and>
      isValidPrivate demo (draw (demo_world_late 1000) 1000)"
    by (simp add: demo_isValidPrivate draw_late_before draw_late_at zeros_invalid ones_valid)
  then have "\<exists>kp. GenKey demo (demo_world_late 1000) =
      Some (kp, after_draws (demo_world_late 1000) (Suc 1000)) \<and> prvkey kp = draw (demo_world_late 1000) 1000"
    using genkey_loop_has_no_bound [of demo "demo_world_late 1000" 1000] by blast
  then have "\<exists>kp. GenKey demo (demo_world_late 1000) =
      Some (kp, after_draws (demo_world_late 1000) 1001) \<and> prvkey kp = replicate 32 1"
    by (simp add: draw_late_at)
  moreover have "consumed (after_draws (demo_world_late 1000) 1001) = 32032"
    by (simp add: after_draws_def demo_world_late_def)
  moreover have "length (new_calls (demo_world_late 1000) (after_draws (demo_world_late 1000) 1001)) = 1001"
    by (simp add: after_draws_def demo_world_late_def new_calls_def)
  ultimately show ?thesis by blast
qed

end
